theory Spec2Isabelle
  imports Complex_Main
begin

section \<open>A d2q9-bgk lattice Boltzmann code: data model\<close>

text \<open>
  The C program \<^verbatim>\<open>d2q9-bgk.c\<close> keeps the nine particle densities of every grid
  cell in nine parallel arrays (the struct \<^verbatim>\<open>soa\<close>), indexed \<^verbatim>\<open>ii + jj*nx\<close>.

  Conventions of the embedding:
  \<^item> a C \<^verbatim>\<open>float\<close> is a \<^typ>\<open>real\<close>: rounding is not modelled, so every equation
    below is one of exact arithmetic;
  \<^item> a division is \<open>fdiv\<close>, which gives \<open>None\<close> when the divisor is zero (the C
    result is then an infinity or a NaN, which is not followed any further);
  \<^item> a C \<^verbatim>\<open>int\<close> parameter is an \<^typ>\<open>int\<close>; loop counters, which the loops keep
    between 0 and the bound, are \<^typ>\<open>nat\<close>; 32-bit overflow of \<^verbatim>\<open>ii + jj*nx\<close> is
    not modelled;
  \<^item> an array is a list; the arrays of a grid are allocated with \<^verbatim>\<open>nx*ny\<close> elements
    (predicate \<open>grid_ok\<close>), and the theorems assume that, since \<open>xs ! i\<close> says
    nothing beyond the end of \<open>xs\<close>.
\<close>

record t_param =
  nx :: int
  ny :: int
  maxIters :: int
  reynolds_dim :: int
  density :: real
  accel :: real
  omega :: real

record soa =
  s0 :: "real list"
  s1 :: "real list"
  s2 :: "real list"
  s3 :: "real list"
  s4 :: "real list"
  s5 :: "real list"
  s6 :: "real list"
  s7 :: "real list"
  s8 :: "real list"

definition fdiv :: "real \<Rightarrow> real \<Rightarrow> real option" where
  "fdiv a b = (if b = 0 then None else Some (a / b))"

definition grid_ok :: "t_param \<Rightarrow> soa \<Rightarrow> bool" where
  "grid_ok params grid \<longleftrightarrow>
     length (s0 grid) = nat (nx params) * nat (ny params) \<and>
     length (s1 grid) = nat (nx params) * nat (ny params) \<and>
     length (s2 grid) = nat (nx params) * nat (ny params) \<and>
     length (s3 grid) = nat (nx params) * nat (ny params) \<and>
     length (s4 grid) = nat (nx params) * nat (ny params) \<and>
     length (s5 grid) = nat (nx params) * nat (ny params) \<and>
     length (s6 grid) = nat (nx params) * nat (ny params) \<and>
     length (s7 grid) = nat (nx params) * nat (ny params) \<and>
     length (s8 grid) = nat (nx params) * nat (ny params)"

section \<open>The fused kernel\<close>

text \<open>
  \<open>fusion_cell\<close> is the body of the two loops of \<^verbatim>\<open>fusion\<close> (lines 563 to 775) for
  the cell \<open>(ii, jj)\<close>: it reads \<open>grid\<close>, writes the cell of \<open>tmp_grid\<close> and updates
  the two accumulators \<open>tot_u\<close> and \<open>tot_cells\<close>.

  The array \<open>d_equ\<close>: the fluid branch declares \<^verbatim>\<open>float d_equ[NSPEEDS]\<close> and reads
  its nine entries in the relaxation step, but every assignment to it is commented out;
  lines 665 to 673 assign \<^verbatim>\<open>1.0f\<close> to the entries of an array written \<^verbatim>\<open>d\<close>, which
  is declared nowhere in the file. The nine values read are therefore a parameter of
  the model, the same for every cell; \<open>d_ones\<close> is the reading of lines 665 to 673 as
  assignments to \<open>d_equ\<close>. Nothing in the obstacle branch depends on them.
\<close>

definition d_ones :: "nat \<Rightarrow> real" where
  "d_ones k = 1"

definition fusion_cell ::
  "t_param \<Rightarrow> int list \<Rightarrow> (nat \<Rightarrow> real) \<Rightarrow> soa \<Rightarrow> nat \<Rightarrow> nat \<Rightarrow>
   soa \<times> real option \<times> nat \<Rightarrow> soa \<times> real option \<times> nat" where
  "fusion_cell params obstacles d_equ grid jj ii st =
    (case st of (tmp_grid, tot_u, tot_cells) \<Rightarrow>
     let NX = nat (nx params);
         NY = nat (ny params);
         y_n = (jj + 1) mod NY;
         x_e = (ii + 1) mod NX;
         y_s = (if jj = 0 then jj + NY - 1 else jj - 1);
         x_w = (if ii = 0 then ii + NX - 1 else ii - 1);
         c = ii + jj * NX;
         tmp_grid = tmp_grid\<lparr>s0 := (s0 tmp_grid)[c := s0 grid ! (ii + jj * NX)]\<rparr>;
         tmp_grid = tmp_grid\<lparr>s1 := (s1 tmp_grid)[c := s1 grid ! (x_w + jj * NX)]\<rparr>;
         tmp_grid = tmp_grid\<lparr>s2 := (s2 tmp_grid)[c := s2 grid ! (ii + y_s * NX)]\<rparr>;
         tmp_grid = tmp_grid\<lparr>s3 := (s3 tmp_grid)[c := s3 grid ! (x_e + jj * NX)]\<rparr>;
         tmp_grid = tmp_grid\<lparr>s4 := (s4 tmp_grid)[c := s4 grid ! (ii + y_n * NX)]\<rparr>;
         tmp_grid = tmp_grid\<lparr>s5 := (s5 tmp_grid)[c := s5 grid ! (x_w + y_s * NX)]\<rparr>;
         tmp_grid = tmp_grid\<lparr>s6 := (s6 tmp_grid)[c := s6 grid ! (x_e + y_s * NX)]\<rparr>;
         tmp_grid = tmp_grid\<lparr>s7 := (s7 tmp_grid)[c := s7 grid ! (x_e + y_n * NX)]\<rparr>;
         tmp_grid = tmp_grid\<lparr>s8 := (s8 tmp_grid)[c := s8 grid ! (x_w + y_n * NX)]\<rparr>
     in
     if obstacles ! (jj * NX + ii) \<noteq> 0 then
       let t1 = s1 tmp_grid ! c;
           t2 = s2 tmp_grid ! c;
           t3 = s3 tmp_grid ! c;
           t4 = s4 tmp_grid ! c;
           t5 = s5 tmp_grid ! c;
           t6 = s6 tmp_grid ! c;
           t7 = s7 tmp_grid ! c;
           t8 = s8 tmp_grid ! c;
           tmp_grid = tmp_grid\<lparr>s1 := (s1 tmp_grid)[c := t3]\<rparr>;
           tmp_grid = tmp_grid\<lparr>s2 := (s2 tmp_grid)[c := t4]\<rparr>;
           tmp_grid = tmp_grid\<lparr>s3 := (s3 tmp_grid)[c := t1]\<rparr>;
           tmp_grid = tmp_grid\<lparr>s4 := (s4 tmp_grid)[c := t2]\<rparr>;
           tmp_grid = tmp_grid\<lparr>s5 := (s5 tmp_grid)[c := t7]\<rparr>;
           tmp_grid = tmp_grid\<lparr>s6 := (s6 tmp_grid)[c := t8]\<rparr>;
           tmp_grid = tmp_grid\<lparr>s7 := (s7 tmp_grid)[c := t5]\<rparr>;
           tmp_grid = tmp_grid\<lparr>s8 := (s8 tmp_grid)[c := t6]\<rparr>
       in (tmp_grid, tot_u, tot_cells)
     else
       let av_local_density = 0;
           outVal = s0 tmp_grid ! c + omega params * (d_equ 0 - s0 tmp_grid ! c);
           tmp_grid = tmp_grid\<lparr>s0 := (s0 tmp_grid)[c := outVal]\<rparr>;
           av_local_density = av_local_density + outVal;
           outVal = s1 tmp_grid ! c + omega params * (d_equ 1 - s1 tmp_grid ! c);
           tmp_grid = tmp_grid\<lparr>s1 := (s1 tmp_grid)[c := outVal]\<rparr>;
           av_local_density = av_local_density + outVal;
           outVal = s2 tmp_grid ! c + omega params * (d_equ 2 - s2 tmp_grid ! c);
           tmp_grid = tmp_grid\<lparr>s2 := (s2 tmp_grid)[c := outVal]\<rparr>;
           av_local_density = av_local_density + outVal;
           outVal = s3 tmp_grid ! c + omega params * (d_equ 3 - s3 tmp_grid ! c);
           tmp_grid = tmp_grid\<lparr>s3 := (s3 tmp_grid)[c := outVal]\<rparr>;
           av_local_density = av_local_density + outVal;
           outVal = s4 tmp_grid ! c + omega params * (d_equ 4 - s4 tmp_grid ! c);
           tmp_grid = tmp_grid\<lparr>s4 := (s4 tmp_grid)[c := outVal]\<rparr>;
           av_local_density = av_local_density + outVal;
           outVal = s5 tmp_grid ! c + omega params * (d_equ 5 - s5 tmp_grid ! c);
           tmp_grid = tmp_grid\<lparr>s5 := (s5 tmp_grid)[c := outVal]\<rparr>;
           av_local_density = av_local_density + outVal;
           outVal = s6 tmp_grid ! c + omega params * (d_equ 6 - s6 tmp_grid ! c);
           tmp_grid = tmp_grid\<lparr>s6 := (s6 tmp_grid)[c := outVal]\<rparr>;
           av_local_density = av_local_density + outVal;
           outVal = s7 tmp_grid ! c + omega params * (d_equ 7 - s7 tmp_grid ! c);
           tmp_grid = tmp_grid\<lparr>s7 := (s7 tmp_grid)[c := outVal]\<rparr>;
           av_local_density = av_local_density + outVal;
           outVal = s8 tmp_grid ! c + omega params * (d_equ 8 - s8 tmp_grid ! c);
           tmp_grid = tmp_grid\<lparr>s8 := (s8 tmp_grid)[c := outVal]\<rparr>;
           av_local_density = av_local_density + outVal;
           av_u_x = fdiv (s1 tmp_grid ! c + s5 tmp_grid ! c + s8 tmp_grid ! c
                          - (s3 tmp_grid ! c + s6 tmp_grid ! c + s7 tmp_grid ! c))
                         av_local_density;
           av_u_y = fdiv (s2 tmp_grid ! c + s5 tmp_grid ! c + s6 tmp_grid ! c
                          - (s4 tmp_grid ! c + s7 tmp_grid ! c + s8 tmp_grid ! c))
                         av_local_density
       in (tmp_grid,
           Option.bind tot_u (\<lambda>t. Option.bind av_u_x (\<lambda>x. Option.bind av_u_y (\<lambda>y.
             Some (t + sqrt (x * x + y * y))))),
           tot_cells + 1))"

text \<open>
  The two loops of \<^verbatim>\<open>fusion\<close> (lines 554 to 778), rows outside and columns inside,
  started with \<^verbatim>\<open>tot_u = 0.f\<close> and \<^verbatim>\<open>tot_cells = 0\<close>.
\<close>

definition fusion_loop ::
  "t_param \<Rightarrow> int list \<Rightarrow> (nat \<Rightarrow> real) \<Rightarrow> soa \<Rightarrow> soa \<Rightarrow> soa \<times> real option \<times> nat" where
  "fusion_loop params obstacles d_equ grid tmp_grid =
     fold (\<lambda>jj. fold (\<lambda>ii. fusion_cell params obstacles d_equ grid jj ii)
                      [0..<nat (nx params)])
          [0..<nat (ny params)] (tmp_grid, Some 0, 0)"

text \<open>
  \<^verbatim>\<open>fusion\<close> returns \<^verbatim>\<open>tot_u / (float)tot_cells\<close> (line 783); the model returns
  the scratch grid it has written as well.
\<close>

definition fusion ::
  "t_param \<Rightarrow> int list \<Rightarrow> (nat \<Rightarrow> real) \<Rightarrow> soa \<Rightarrow> soa \<Rightarrow> soa \<times> real option" where
  "fusion params obstacles d_equ grid tmp_grid =
     (case fusion_loop params obstacles d_equ grid tmp_grid of
        (tmp_grid', tot_u, tot_cells) \<Rightarrow>
          (tmp_grid', Option.bind tot_u (\<lambda>t. fdiv t (real tot_cells))))"

section \<open>The acceleration stage and a timestep\<close>

text \<open>
  The body of the loop of \<^verbatim>\<open>accelerate_flow\<close> (lines 251 to 264) for column \<open>ii\<close>
  of row \<open>jj\<close>. The struct copy \<^verbatim>\<open>soa grid = *grid_ptr\<close> copies nine pointers, so
  the writes go to the caller's arrays.
\<close>

definition accelerate_cell :: "t_param \<Rightarrow> int list \<Rightarrow> nat \<Rightarrow> nat \<Rightarrow> soa \<Rightarrow> soa" where
  "accelerate_cell params obstacles jj ii grid =
    (let w1 = density params * accel params / 9;
         w2 = density params * accel params / 36;
         c = ii + jj * nat (nx params)
     in
     if obstacles ! c = 0
        \<and> s3 grid ! c - w1 > 0
        \<and> s6 grid ! c - w2 > 0
        \<and> s7 grid ! c - w2 > 0
     then
       let grid = grid\<lparr>s1 := (s1 grid)[c := s1 grid ! c + w1]\<rparr>;
           grid = grid\<lparr>s5 := (s5 grid)[c := s5 grid ! c + w2]\<rparr>;
           grid = grid\<lparr>s8 := (s8 grid)[c := s8 grid ! c + w2]\<rparr>;
           grid = grid\<lparr>s3 := (s3 grid)[c := s3 grid ! c - w1]\<rparr>;
           grid = grid\<lparr>s6 := (s6 grid)[c := s6 grid ! c - w2]\<rparr>;
           grid = grid\<lparr>s7 := (s7 grid)[c := s7 grid ! c - w2]\<rparr>
       in grid
     else grid)"

text \<open>
  \<^verbatim>\<open>accelerate_flow\<close> works on row \<^verbatim>\<open>jj = params.ny - 2\<close>. When that is negative and
  the loop runs at all, the index \<^verbatim>\<open>ii + jj*params.nx\<close> of its first read lies before
  the start of the arrays: the result is \<open>None\<close> (undefined behaviour in C).
\<close>

definition accelerate_flow :: "t_param \<Rightarrow> int list \<Rightarrow> soa \<Rightarrow> soa option" where
  "accelerate_flow params obstacles grid =
    (let jj = ny params - 2 in
     if jj < 0 \<and> 0 < nx params then None
     else Some (fold (accelerate_cell params obstacles (nat jj)) [0..<nat (nx params)] grid))"

text \<open>
  \<^verbatim>\<open>timestep\<close> (lines 228 to 232): the model returns the grid after the acceleration,
  the scratch grid after the kernel, and the kernel's return value.
\<close>

definition timestep ::
  "t_param \<Rightarrow> int list \<Rightarrow> (nat \<Rightarrow> real) \<Rightarrow> soa \<Rightarrow> soa \<Rightarrow> (soa \<times> soa \<times> real option) option" where
  "timestep params obstacles d_equ grid tmp_grid =
    (case accelerate_flow params obstacles grid of
       None \<Rightarrow> None
     | Some grid' \<Rightarrow>
         (case fusion params obstacles d_equ grid' tmp_grid of
            (tmp_grid', av) \<Rightarrow> Some (grid', tmp_grid', av)))"

section \<open>Average velocity and Reynolds number\<close>

text \<open>The body of the loops of \<^verbatim>\<open>av_velocity\<close> (lines 446 to 476).\<close>

definition av_velocity_cell ::
  "t_param \<Rightarrow> int list \<Rightarrow> soa \<Rightarrow> nat \<Rightarrow> nat \<Rightarrow> real option \<times> nat \<Rightarrow> real option \<times> nat" where
  "av_velocity_cell params obstacles grid jj ii st =
    (case st of (tot_u, tot_cells) \<Rightarrow>
     let c = ii + jj * nat (nx params) in
     if obstacles ! c = 0 then
       let local_density = s0 grid ! c + s1 grid ! c + s2 grid ! c + s3 grid ! c
                         + s4 grid ! c + s5 grid ! c + s6 grid ! c + s7 grid ! c
                         + s8 grid ! c;
           u_x = fdiv (s1 grid ! c + s5 grid ! c + s8 grid ! c
                       - (s3 grid ! c + s6 grid ! c + s7 grid ! c)) local_density;
           u_y = fdiv (s2 grid ! c + s5 grid ! c + s6 grid ! c
                       - (s4 grid ! c + s7 grid ! c + s8 grid ! c)) local_density
       in (Option.bind tot_u (\<lambda>t. Option.bind u_x (\<lambda>x. Option.bind u_y (\<lambda>y.
             Some (t + sqrt (x * x + y * y))))),
           tot_cells + 1)
     else (tot_u, tot_cells))"

definition av_velocity :: "t_param \<Rightarrow> int list \<Rightarrow> soa \<Rightarrow> real option" where
  "av_velocity params obstacles grid =
    (case fold (\<lambda>jj. fold (\<lambda>ii. av_velocity_cell params obstacles grid jj ii)
                           [0..<nat (nx params)])
               [0..<nat (ny params)] (Some 0, 0) of
       (tot_u, tot_cells) \<Rightarrow> Option.bind tot_u (\<lambda>t. fdiv t (real tot_cells)))"

text \<open>\<^verbatim>\<open>calc_reynolds\<close> (lines 990 to 995).\<close>

definition calc_reynolds :: "t_param \<Rightarrow> int list \<Rightarrow> soa \<Rightarrow> real option" where
  "calc_reynolds params obstacles grid =
    Option.bind (fdiv 2 (omega params)) (\<lambda>q.
      let viscosity = 1 / 6 * (q - 1) in
      Option.bind (av_velocity params obstacles grid) (\<lambda>av.
        fdiv (av * real_of_int (reynolds_dim params)) viscosity))"

section \<open>The result files\<close>

datatype failure =
  Die string
  | Null_write

text \<open>
  \<open>Die m\<close> is a call of \<^verbatim>\<open>die\<close>: the message goes to stderr and the process exits
  with \<^verbatim>\<open>EXIT_FAILURE\<close>. \<open>Null_write\<close> is a store through a null pointer (undefined
  behaviour in C; no diagnostic is printed).

  A line of \<^verbatim>\<open>final_state.dat\<close> holds the seven values given to \<^verbatim>\<open>fprintf\<close> at
  line 1076; the text of the numbers is not modelled. A velocity is \<open>None\<close> when its
  division had a zero divisor. The last field is read at \<^verbatim>\<open>obstacles[ii*nx + jj]\<close>;
  \<open>peek\<close> gives \<open>None\<close> where that index lies beyond the end of the mask.
\<close>

record state_line =
  l_ii :: nat
  l_jj :: nat
  l_u_x :: "real option"
  l_u_y :: "real option"
  l_u :: "real option"
  l_pressure :: real
  l_obstacle :: "int option"

definition peek :: "'a list \<Rightarrow> nat \<Rightarrow> 'a option" where
  "peek xs i = (if i < length xs then Some (xs ! i) else None)"

definition write_cell :: "t_param \<Rightarrow> int list \<Rightarrow> soa \<Rightarrow> nat \<Rightarrow> nat \<Rightarrow> state_line" where
  "write_cell params obstacles grid jj ii =
    (let c_sq = 1 / 3;
         c = ii + jj * nat (nx params);
         flag = peek obstacles (ii * nat (nx params) + jj)
     in
     if obstacles ! c \<noteq> 0 then
       \<lparr>l_ii = ii, l_jj = jj, l_u_x = Some 0, l_u_y = Some 0, l_u = Some 0,
        l_pressure = density params * c_sq, l_obstacle = flag\<rparr>
     else
       let local_density = s0 grid ! c + s1 grid ! c + s2 grid ! c + s3 grid ! c
                         + s4 grid ! c + s5 grid ! c + s6 grid ! c + s7 grid ! c
                         + s8 grid ! c;
           u_x = fdiv (s1 grid ! c + s5 grid ! c + s8 grid ! c
                       - (s3 grid ! c + s6 grid ! c + s7 grid ! c)) local_density;
           u_y = fdiv (s2 grid ! c + s5 grid ! c + s6 grid ! c
                       - (s4 grid ! c + s7 grid ! c + s8 grid ! c)) local_density;
           u = Option.bind u_x (\<lambda>x. Option.bind u_y (\<lambda>y. Some (sqrt (x * x + y * y))))
       in \<lparr>l_ii = ii, l_jj = jj, l_u_x = u_x, l_u_y = u_y, l_u = u,
           l_pressure = local_density * c_sq, l_obstacle = flag\<rparr>)"

text \<open>
  \<^verbatim>\<open>write_values\<close> (lines 1015 to 1097). \<open>fopen1\<close> and \<open>fopen2\<close> say whether the two
  files could be opened. The result is the exit by \<^verbatim>\<open>die\<close>, if any, the lines
  written to \<^verbatim>\<open>final_state.dat\<close> and the lines (index and value) written to
  \<^verbatim>\<open>av_vels.dat\<close>.
\<close>

definition write_values ::
  "t_param \<Rightarrow> int list \<Rightarrow> real option list \<Rightarrow> soa \<Rightarrow> bool \<Rightarrow> bool \<Rightarrow>
   failure option \<times> state_line list \<times> (nat \<times> real option) list" where
  "write_values params obstacles av_vels grid fopen1 fopen2 =
    (if \<not> fopen1 then (Some (Die ''could not open file output file''), [], [])
     else
       let final_state =
             concat (map (\<lambda>jj. map (\<lambda>ii. write_cell params obstacles grid jj ii)
                                     [0..<nat (nx params)])
                         [0..<nat (ny params)])
       in if \<not> fopen2 then (Some (Die ''could not open file output file''), final_state, [])
          else (None, final_state,
                map (\<lambda>ii. (ii, av_vels ! ii)) [0..<nat (maxIters params)]))"

section \<open>The driver\<close>

text \<open>
  The loop of \<^verbatim>\<open>main\<close> (lines 186 to 200): one \<^verbatim>\<open>timestep\<close>, its value stored in
  \<^verbatim>\<open>av_vels[tt]\<close>, then the two grid pointers swapped. The state is the grid that
  \<^verbatim>\<open>grid_ptr\<close> points to, the one \<^verbatim>\<open>tmp_grid_ptr\<close> points to, and \<^verbatim>\<open>av_vels\<close>.
\<close>

definition main_step ::
  "t_param \<Rightarrow> int list \<Rightarrow> (nat \<Rightarrow> real) \<Rightarrow> nat \<Rightarrow>
   (soa \<times> soa \<times> real option list) option \<Rightarrow> (soa \<times> soa \<times> real option list) option" where
  "main_step params obstacles d_equ tt st =
    (case st of
       None \<Rightarrow> None
     | Some (grid, tmp_grid, av_vels) \<Rightarrow>
         (case timestep params obstacles d_equ grid tmp_grid of
            None \<Rightarrow> None
          | Some (grid', tmp_grid', av) \<Rightarrow> Some (tmp_grid', grid', av_vels[tt := av])))"

definition main_loop ::
  "t_param \<Rightarrow> int list \<Rightarrow> (nat \<Rightarrow> real) \<Rightarrow> soa \<Rightarrow> soa \<Rightarrow> real option list \<Rightarrow>
   (soa \<times> soa \<times> real option list) option" where
  "main_loop params obstacles d_equ grid tmp_grid av_vels =
     fold (main_step params obstacles d_equ) [0..<nat (maxIters params)]
          (Some (grid, tmp_grid, av_vels))"

text \<open>
  What \<^verbatim>\<open>main\<close> does after \<^verbatim>\<open>initialise\<close>: the loop, then the Reynolds number
  printed at line 217 and the files written at line 222, both from the grid that
  \<^verbatim>\<open>grid_ptr\<close> points to after the loop.
\<close>

definition main_run ::
  "t_param \<Rightarrow> int list \<Rightarrow> (nat \<Rightarrow> real) \<Rightarrow> soa \<Rightarrow> soa \<Rightarrow> real option list \<Rightarrow> bool \<Rightarrow> bool \<Rightarrow>
   (real option \<times> failure option \<times> state_line list \<times> (nat \<times> real option) list) option" where
  "main_run params obstacles d_equ grid tmp_grid av_vels fopen1 fopen2 =
    (case main_loop params obstacles d_equ grid tmp_grid av_vels of
       None \<Rightarrow> None
     | Some (grid', tmp_grid', av_vels') \<Rightarrow>
         Some (calc_reynolds params obstacles grid',
               write_values params obstacles av_vels' grid' fopen1 fopen2))"

section \<open>Initialisation\<close>

text \<open>
  What \<^verbatim>\<open>initialise\<close> meets outside the program is gathered in one record: whether
  each \<^verbatim>\<open>fopen\<close> succeeds, what each \<^verbatim>\<open>fscanf\<close> of the parameter file converts
  (\<open>None\<close> when it returns something other than 1), the values each \<^verbatim>\<open>fscanf\<close> of the
  obstacle file converts, whether the \<open>k\<close>-th allocation request succeeds, counted in
  program order from 0 (0 to 8 the arrays of \<^verbatim>\<open>grid\<close>, 9 to 17 those of
  \<^verbatim>\<open>tmp_grid\<close>, 18 the obstacle mask, 19 \<^verbatim>\<open>av_vels\<close>), and the indeterminate
  contents of fresh memory.
\<close>

record environment =
  paramfile :: string
  paramfile_opens :: bool
  scan_nx :: "int option"
  scan_ny :: "int option"
  scan_maxIters :: "int option"
  scan_reynolds_dim :: "int option"
  scan_density :: "real option"
  scan_accel :: "real option"
  scan_omega :: "real option"
  heap :: "nat \<Rightarrow> bool"
  fresh_float :: real
  fresh_int :: int
  obstaclefile :: string
  obstaclefile_opens :: bool
  obstacle_lines :: "int list list"

text \<open>A pointer to an array is \<open>None\<close> when it is \<^verbatim>\<open>NULL\<close>.\<close>

record soa_ptr =
  p0 :: "real list option"
  p1 :: "real list option"
  p2 :: "real list option"
  p3 :: "real list option"
  p4 :: "real list option"
  p5 :: "real list option"
  p6 :: "real list option"
  p7 :: "real list option"
  p8 :: "real list option"

record init_state =
  i_params :: t_param
  i_grid :: soa_ptr
  i_tmp_grid :: soa_ptr
  i_obstacles :: "int list"
  i_av_vels :: "real option list option"

definition on_ok :: "failure + 'a \<Rightarrow> ('a \<Rightarrow> failure + 'b) \<Rightarrow> failure + 'b" where
  "on_ok r f = (case r of Inl e \<Rightarrow> Inl e | Inr x \<Rightarrow> f x)"

definition mm_malloc :: "environment \<Rightarrow> nat \<Rightarrow> int \<Rightarrow> 'a \<Rightarrow> 'a list option" where
  "mm_malloc env k n fresh = (if heap env k then Some (replicate (nat n) fresh) else None)"

definition store :: "'a list option \<Rightarrow> nat \<Rightarrow> 'a \<Rightarrow> failure + 'a list option" where
  "store p i v = (case p of None \<Rightarrow> Inl Null_write | Some xs \<Rightarrow> Inr (Some (xs[i := v])))"

text \<open>Lines 806 to 844: the parameter file.\<close>

definition read_params :: "environment \<Rightarrow> failure + t_param" where
  "read_params env =
    (if \<not> paramfile_opens env
     then Inl (Die (''could not open input parameter file: '' @ paramfile env))
     else case scan_nx env of
       None \<Rightarrow> Inl (Die ''could not read param file: nx'')
     | Some v_nx \<Rightarrow>
     (case scan_ny env of
       None \<Rightarrow> Inl (Die ''could not read param file: ny'')
     | Some v_ny \<Rightarrow>
     (case scan_maxIters env of
       None \<Rightarrow> Inl (Die ''could not read param file: maxIters'')
     | Some v_maxIters \<Rightarrow>
     (case scan_reynolds_dim env of
       None \<Rightarrow> Inl (Die ''could not read param file: reynolds_dim'')
     | Some v_reynolds_dim \<Rightarrow>
     (case scan_density env of
       None \<Rightarrow> Inl (Die ''could not read param file: density'')
     | Some v_density \<Rightarrow>
     (case scan_accel env of
       None \<Rightarrow> Inl (Die ''could not read param file: accel'')
     | Some v_accel \<Rightarrow>
     (case scan_omega env of
       None \<Rightarrow> Inl (Die ''could not read param file: omega'')
     | Some v_omega \<Rightarrow>
         Inr \<lparr>nx = v_nx, ny = v_ny, maxIters = v_maxIters, reynolds_dim = v_reynolds_dim,
              density = v_density, accel = v_accel, omega = v_omega\<rparr>)))))))"

text \<open>Lines 897 to 907: the nine stores of the initial densities of one cell.\<close>

definition init_cell :: "t_param \<Rightarrow> nat \<Rightarrow> nat \<Rightarrow> soa_ptr \<Rightarrow> failure + soa_ptr" where
  "init_cell params jj ii grid =
    (let w0 = density params * 4 / 9;
         w1 = density params / 9;
         w2 = density params / 36;
         c = ii + jj * nat (nx params)
     in
     on_ok (store (p0 grid) c w0) (\<lambda>a0.
     on_ok (store (p1 grid) c w1) (\<lambda>a1.
     on_ok (store (p2 grid) c w1) (\<lambda>a2.
     on_ok (store (p3 grid) c w1) (\<lambda>a3.
     on_ok (store (p4 grid) c w1) (\<lambda>a4.
     on_ok (store (p5 grid) c w2) (\<lambda>a5.
     on_ok (store (p6 grid) c w2) (\<lambda>a6.
     on_ok (store (p7 grid) c w2) (\<lambda>a7.
     on_ok (store (p8 grid) c w2) (\<lambda>a8.
       Inr \<lparr>p0 = a0, p1 = a1, p2 = a2, p3 = a3, p4 = a4,
            p5 = a5, p6 = a6, p7 = a7, p8 = a8\<rparr>))))))))))"

text \<open>Lines 944 to 953: one line of the obstacle file.\<close>

definition read_obstacle :: "t_param \<Rightarrow> int list \<Rightarrow> int list \<Rightarrow> failure + int list" where
  "read_obstacle params entry obstacles =
    (if length entry \<noteq> 3 then Inl (Die ''expected 3 values per line in obstacle file'')
     else
       let xx = entry ! 0; yy = entry ! 1; blocked = entry ! 2 in
       if xx < 0 \<or> xx > nx params - 1 then Inl (Die ''obstacle x-coord out of range'')
       else if yy < 0 \<or> yy > ny params - 1 then Inl (Die ''obstacle y-coord out of range'')
       else if blocked \<noteq> 1 then Inl (Die ''obstacle blocked value should be 1'')
       else Inr (obstacles[nat (xx + yy * nx params) := blocked]))"

text \<open>
  \<^verbatim>\<open>initialise\<close> (lines 795 to 966). Of the twenty allocation results only the
  obstacle mask is compared with \<^verbatim>\<open>NULL\<close> (line 915).
\<close>

definition initialise :: "environment \<Rightarrow> failure + init_state" where
  "initialise env =
    on_ok (read_params env) (\<lambda>params.
      let n = ny params * nx params;
          grid = \<lparr>p0 = mm_malloc env 0 n (fresh_float env),
                  p1 = mm_malloc env 1 n (fresh_float env),
                  p2 = mm_malloc env 2 n (fresh_float env),
                  p3 = mm_malloc env 3 n (fresh_float env),
                  p4 = mm_malloc env 4 n (fresh_float env),
                  p5 = mm_malloc env 5 n (fresh_float env),
                  p6 = mm_malloc env 6 n (fresh_float env),
                  p7 = mm_malloc env 7 n (fresh_float env),
                  p8 = mm_malloc env 8 n (fresh_float env)\<rparr>;
          tmp_grid = \<lparr>p0 = mm_malloc env 9 n (fresh_float env),
                      p1 = mm_malloc env 10 n (fresh_float env),
                      p2 = mm_malloc env 11 n (fresh_float env),
                      p3 = mm_malloc env 12 n (fresh_float env),
                      p4 = mm_malloc env 13 n (fresh_float env),
                      p5 = mm_malloc env 14 n (fresh_float env),
                      p6 = mm_malloc env 15 n (fresh_float env),
                      p7 = mm_malloc env 16 n (fresh_float env),
                      p8 = mm_malloc env 17 n (fresh_float env)\<rparr>
      in
      on_ok (fold (\<lambda>jj. fold (\<lambda>ii r. on_ok r (init_cell params jj ii))
                              [0..<nat (nx params)])
                  [0..<nat (ny params)] (Inr grid)) (\<lambda>grid.
        case mm_malloc env 18 n (fresh_int env) of
          None \<Rightarrow> Inl (Die ''cannot allocate column memory for obstacles'')
        | Some obstacles \<Rightarrow>
            let obstacles =
                  fold (\<lambda>jj. fold (\<lambda>ii obs. obs[ii + jj * nat (nx params) := 0])
                                   [0..<nat (nx params)])
                       [0..<nat (ny params)] obstacles
            in
            if \<not> obstaclefile_opens env
            then Inl (Die (''could not open input obstacles file: '' @ obstaclefile env))
            else
              on_ok (fold (\<lambda>entry r. on_ok r (read_obstacle params entry))
                          (obstacle_lines env) (Inr obstacles)) (\<lambda>obstacles.
                Inr \<lparr>i_params = params, i_grid = grid, i_tmp_grid = tmp_grid,
                     i_obstacles = obstacles,
                     i_av_vels = mm_malloc env 19 (maxIters params)
                                   (Some (fresh_float env))\<rparr>)))"

section \<open>Auxiliary definitions\<close>

subsection \<open>The nine values of a cell\<close>

text \<open>
  The statements below look at one cell at a time: \<open>cell_at g c\<close> is the list of the
  nine values of cell \<open>c\<close> of the grid \<open>g\<close>, and \<open>put_cell g c vs\<close> is \<open>g\<close> with those
  nine values replaced by \<open>vs\<close>.
\<close>

definition put_cell :: "soa \<Rightarrow> nat \<Rightarrow> real list \<Rightarrow> soa" where
  "put_cell g c vs = g\<lparr>s0 := (s0 g)[c := vs ! 0], s1 := (s1 g)[c := vs ! 1],
     s2 := (s2 g)[c := vs ! 2], s3 := (s3 g)[c := vs ! 3], s4 := (s4 g)[c := vs ! 4],
     s5 := (s5 g)[c := vs ! 5], s6 := (s6 g)[c := vs ! 6], s7 := (s7 g)[c := vs ! 7],
     s8 := (s8 g)[c := vs ! 8]\<rparr>"

definition cell_at :: "soa \<Rightarrow> nat \<Rightarrow> real list" where
  "cell_at g c = [s0 g ! c, s1 g ! c, s2 g ! c, s3 g ! c, s4 g ! c, s5 g ! c, s6 g ! c,
     s7 g ! c, s8 g ! c]"

text \<open>
  The nine values that lines 571 to 579 copy into the scratch cell \<open>(ii, jj)\<close>, with the
  neighbour indices of lines 563 to 566.
\<close>

definition streamed :: "t_param \<Rightarrow> soa \<Rightarrow> nat \<Rightarrow> nat \<Rightarrow> real list" where
  "streamed params grid jj ii =
    (let NX = nat (nx params);
         NY = nat (ny params);
         y_n = (jj + 1) mod NY;
         x_e = (ii + 1) mod NX;
         y_s = (if jj = 0 then jj + NY - 1 else jj - 1);
         x_w = (if ii = 0 then ii + NX - 1 else ii - 1)
     in [s0 grid ! (ii + jj * NX), s1 grid ! (x_w + jj * NX), s2 grid ! (ii + y_s * NX),
         s3 grid ! (x_e + jj * NX), s4 grid ! (ii + y_n * NX), s5 grid ! (x_w + y_s * NX),
         s6 grid ! (x_e + y_s * NX), s7 grid ! (x_e + y_n * NX), s8 grid ! (x_w + y_n * NX)])"

text \<open>
  What the two branches of the kernel make of the streamed values \<open>t\<close>: the exchange of
  opposite directions of lines 592 to 607, and the relaxation toward \<open>d\<close> of lines 704
  to 746.
\<close>

definition mirrored :: "real list \<Rightarrow> real list" where
  "mirrored t = [t ! 0, t ! 3, t ! 4, t ! 1, t ! 2, t ! 7, t ! 8, t ! 5, t ! 6]"

definition relaxed :: "real \<Rightarrow> (nat \<Rightarrow> real) \<Rightarrow> real list \<Rightarrow> real list" where
  "relaxed w d t = [t ! 0 + w * (d 0 - t ! 0), t ! 1 + w * (d 1 - t ! 1),
     t ! 2 + w * (d 2 - t ! 2), t ! 3 + w * (d 3 - t ! 3), t ! 4 + w * (d 4 - t ! 4),
     t ! 5 + w * (d 5 - t ! 5), t ! 6 + w * (d 6 - t ! 6), t ! 7 + w * (d 7 - t ! 7),
     t ! 8 + w * (d 8 - t ! 8)]"

text \<open>
  Lines 701 to 771 for the nine values \<open>v\<close> just written: \<^verbatim>\<open>av_local_density\<close> starts at
  0 and adds each of them, and the speed is the norm of the two velocity components.
\<close>

definition speed_of :: "real list \<Rightarrow> real option" where
  "speed_of v =
     (let rho = 0 + v ! 0 + v ! 1 + v ! 2 + v ! 3 + v ! 4 + v ! 5 + v ! 6 + v ! 7 + v ! 8
      in Option.bind (fdiv (v ! 1 + v ! 5 + v ! 8 - (v ! 3 + v ! 6 + v ! 7)) rho) (\<lambda>x.
         Option.bind (fdiv (v ! 2 + v ! 5 + v ! 6 - (v ! 4 + v ! 7 + v ! 8)) rho) (\<lambda>y.
         Some (sqrt (x * x + y * y)))))"

text \<open>
  What one iteration of the loops writes into its cell, and what it does to the pair of
  accumulators.
\<close>

definition cell_new ::
  "t_param \<Rightarrow> int list \<Rightarrow> (nat \<Rightarrow> real) \<Rightarrow> soa \<Rightarrow> nat \<Rightarrow> nat \<Rightarrow> real list" where
  "cell_new params obstacles d grid jj ii =
     (if obstacles ! (ii + jj * nat (nx params)) \<noteq> 0
      then mirrored (streamed params grid jj ii)
      else relaxed (omega params) d (streamed params grid jj ii))"

definition acc_step ::
  "t_param \<Rightarrow> int list \<Rightarrow> (nat \<Rightarrow> real) \<Rightarrow> soa \<Rightarrow> nat \<Rightarrow> nat \<Rightarrow>
   real option \<times> nat \<Rightarrow> real option \<times> nat" where
  "acc_step params obstacles d grid jj ii a =
     (if obstacles ! (ii + jj * nat (nx params)) \<noteq> 0 then a
      else (Option.bind (fst a) (\<lambda>t. Option.bind
              (speed_of (relaxed (omega params) d (streamed params grid jj ii)))
              (\<lambda>v. Some (t + v))),
            snd a + 1))"

text \<open>
  The cells \<open>(jj, ii)\<close> in the order in which the loops visit them, and the writes and
  the accumulator of a run of iterations, taken apart.
\<close>

definition all_cells :: "t_param \<Rightarrow> (nat \<times> nat) list" where
  "all_cells params = List.product [0..<nat (ny params)] [0..<nat (nx params)]"

definition put_cells ::
  "t_param \<Rightarrow> int list \<Rightarrow> (nat \<Rightarrow> real) \<Rightarrow> soa \<Rightarrow> (nat \<times> nat) list \<Rightarrow> soa \<Rightarrow> soa" where
  "put_cells params obstacles d grid cs tmp =
     fold (\<lambda>(jj, ii) t. put_cell t (ii + jj * nat (nx params))
                           (cell_new params obstacles d grid jj ii)) cs tmp"

definition acc_cells ::
  "t_param \<Rightarrow> int list \<Rightarrow> (nat \<Rightarrow> real) \<Rightarrow> soa \<Rightarrow> (nat \<times> nat) list \<Rightarrow>
   real option \<times> nat \<Rightarrow> real option \<times> nat" where
  "acc_cells params obstacles d grid cs a =
     fold (\<lambda>(jj, ii). acc_step params obstacles d grid jj ii) cs a"

text \<open>
  What \<open>accelerate_cell\<close> makes of the nine values \<open>f\<close> of a cell whose entry in the
  obstacle mask is \<open>flag\<close>.
\<close>

definition accelerated :: "t_param \<Rightarrow> int \<Rightarrow> real list \<Rightarrow> real list" where
  "accelerated params flag f =
    (let w1 = density params * accel params / 9;
         w2 = density params * accel params / 36
     in if flag = 0 \<and> f ! 3 - w1 > 0 \<and> f ! 6 - w2 > 0 \<and> f ! 7 - w2 > 0
        then [f ! 0, f ! 1 + w1, f ! 2, f ! 3 - w1, f ! 4, f ! 5 + w2, f ! 6 - w2,
              f ! 7 - w2, f ! 8 + w2]
        else [f ! 0, f ! 1, f ! 2, f ! 3, f ! 4, f ! 5, f ! 6, f ! 7, f ! 8])"

text \<open>Every value of every array of a grid is positive.\<close>

definition positive_grid :: "soa \<Rightarrow> bool" where
  "positive_grid g \<longleftrightarrow>
     list_all (\<lambda>x. 0 < x) (s0 g) \<and> list_all (\<lambda>x. 0 < x) (s1 g) \<and>
     list_all (\<lambda>x. 0 < x) (s2 g) \<and> list_all (\<lambda>x. 0 < x) (s3 g) \<and>
     list_all (\<lambda>x. 0 < x) (s4 g) \<and> list_all (\<lambda>x. 0 < x) (s5 g) \<and>
     list_all (\<lambda>x. 0 < x) (s6 g) \<and> list_all (\<lambda>x. 0 < x) (s7 g) \<and>
     list_all (\<lambda>x. 0 < x) (s8 g)"

text \<open>
  The density and the speed of cell \<open>c\<close> of a grid, as \<^verbatim>\<open>av_velocity\<close> computes them
  (lines 449 to 473), with the division of the reals.
\<close>

definition cell_density :: "soa \<Rightarrow> nat \<Rightarrow> real" where
  "cell_density g c = s0 g ! c + s1 g ! c + s2 g ! c + s3 g ! c + s4 g ! c
                    + s5 g ! c + s6 g ! c + s7 g ! c + s8 g ! c"

definition cell_speed :: "soa \<Rightarrow> nat \<Rightarrow> real" where
  "cell_speed g c =
     (let u_x = (s1 g ! c + s5 g ! c + s8 g ! c - (s3 g ! c + s6 g ! c + s7 g ! c))
                / cell_density g c;
          u_y = (s2 g ! c + s5 g ! c + s6 g ! c - (s4 g ! c + s7 g ! c + s8 g ! c))
                / cell_density g c
      in sqrt (u_x * u_x + u_y * u_y))"

subsection \<open>The collision of the specification\<close>

text \<open>
  The collision as the specification words it (section 4.1, step 3), for the nine
  streamed values \<open>t\<close> of a cell: density, velocity, equilibrium and relaxation.
\<close>

definition spec_equilibrium :: "real list \<Rightarrow> real list" where
  "spec_equilibrium t =
    (let c_sq = 1 / 3;
         w = [4 / 9, 1 / 9, 1 / 9, 1 / 9, 1 / 9, 1 / 36, 1 / 36, 1 / 36, 1 / 36];
         rho = t ! 0 + t ! 1 + t ! 2 + t ! 3 + t ! 4 + t ! 5 + t ! 6 + t ! 7 + t ! 8;
         u_x = (t ! 1 + t ! 5 + t ! 8 - t ! 3 - t ! 6 - t ! 7) / rho;
         u_y = (t ! 2 + t ! 5 + t ! 6 - t ! 4 - t ! 7 - t ! 8) / rho;
         u_sq = u_x * u_x + u_y * u_y;
         eu = [0, u_x, u_y, - u_x, - u_y, u_x + u_y, - u_x + u_y, - u_x - u_y, u_x - u_y]
     in map (\<lambda>k. w ! k * rho * (1 + eu ! k / c_sq + (eu ! k * eu ! k) / (2 * (c_sq * c_sq))
                                 - u_sq / (2 * c_sq)))
            [0, 1, 2, 3, 4, 5, 6, 7, 8])"

definition spec_relaxation :: "real \<Rightarrow> real list \<Rightarrow> real list" where
  "spec_relaxation w t =
     map (\<lambda>k. t ! k + w * (spec_equilibrium t ! k - t ! k)) [0, 1, 2, 3, 4, 5, 6, 7, 8]"

subsection \<open>Concrete inputs\<close>

text \<open>
  A grid of two by two cells with values that are all different, and a scratch grid of
  zeros.
\<close>

definition ex_params :: t_param where
  "ex_params = \<lparr>nx = 2, ny = 2, maxIters = 2, reynolds_dim = 1,
                 density = 1, accel = 0, omega = 1\<rparr>"

definition ex_grid :: soa where
  "ex_grid = \<lparr>s0 = [1, 2, 3, 4], s1 = [11, 12, 13, 14], s2 = [21, 22, 23, 24],
               s3 = [31, 32, 33, 34], s4 = [41, 42, 43, 44], s5 = [51, 52, 53, 54],
               s6 = [61, 62, 63, 64], s7 = [71, 72, 73, 74], s8 = [81, 82, 83, 84]\<rparr>"

definition ex_scratch :: soa where
  "ex_scratch = \<lparr>s0 = [0, 0, 0, 0], s1 = [0, 0, 0, 0], s2 = [0, 0, 0, 0],
                  s3 = [0, 0, 0, 0], s4 = [0, 0, 0, 0], s5 = [0, 0, 0, 0],
                  s6 = [0, 0, 0, 0], s7 = [0, 0, 0, 0], s8 = [0, 0, 0, 0]\<rparr>"

text \<open>The same grid with an acceleration: \<open>w1 = 1\<close> and \<open>w2 = 1 / 4\<close>.\<close>

definition acc_params :: t_param where
  "acc_params = \<lparr>nx = 2, ny = 2, maxIters = 1, reynolds_dim = 1,
                  density = 1, accel = 9, omega = 1\<rparr>"

text \<open>
  A grid of one fluid cell (one row, one column) that holds 1 everywhere, with the same
  acceleration: the row \<open>ny - 2\<close> is row \<open>- 1\<close>.
\<close>

definition row1_params :: t_param where
  "row1_params = \<lparr>nx = 1, ny = 1, maxIters = 1, reynolds_dim = 1,
                   density = 1, accel = 9, omega = 1\<rparr>"

definition row1_grid :: soa where
  "row1_grid = \<lparr>s0 = [1], s1 = [1], s2 = [1], s3 = [1], s4 = [1],
                 s5 = [1], s6 = [1], s7 = [1], s8 = [1]\<rparr>"

text \<open>
  A column of two cells that hold 1 everywhere and one that holds 0 everywhere, a
  negative acceleration (\<open>w1 = - 2\<close>, \<open>w2 = - 1 / 2\<close>), and the first grid after the
  acceleration stage.
\<close>

definition cx_params :: t_param where
  "cx_params = \<lparr>nx = 1, ny = 2, maxIters = 1, reynolds_dim = 1,
                 density = 1, accel = - 18, omega = 1\<rparr>"

definition ones_grid :: soa where
  "ones_grid = \<lparr>s0 = [1, 1], s1 = [1, 1], s2 = [1, 1], s3 = [1, 1], s4 = [1, 1],
               s5 = [1, 1], s6 = [1, 1], s7 = [1, 1], s8 = [1, 1]\<rparr>"

definition blank_grid :: soa where
  "blank_grid = \<lparr>s0 = [0, 0], s1 = [0, 0], s2 = [0, 0], s3 = [0, 0], s4 = [0, 0],
                  s5 = [0, 0], s6 = [0, 0], s7 = [0, 0], s8 = [0, 0]\<rparr>"

definition cx_after :: soa where
  "cx_after = \<lparr>s0 = [1, 1], s1 = [- 1, 1], s2 = [1, 1], s3 = [3, 1], s4 = [1, 1],
                s5 = [1 / 2, 1], s6 = [3 / 2, 1], s7 = [3 / 2, 1], s8 = [1 / 2, 1]\<rparr>"

text \<open>
  A column of two fluid cells moving up and to the right, relaxed with \<open>omega = 1 / 2\<close>,
  and the grid after one timestep.
\<close>

definition re_params :: t_param where
  "re_params = \<lparr>nx = 1, ny = 2, maxIters = 1, reynolds_dim = 5,
                 density = 1, accel = 0, omega = 1 / 2\<rparr>"

definition re_grid :: soa where
  "re_grid = \<lparr>s0 = [1, 1], s1 = [4, 4], s2 = [5, 5], s3 = [1, 1], s4 = [1, 1],
               s5 = [1, 1], s6 = [1, 1], s7 = [1, 1], s8 = [1, 1]\<rparr>"

definition re_final :: soa where
  "re_final = \<lparr>s0 = [1, 1], s1 = [5 / 2, 5 / 2], s2 = [3, 3], s3 = [1, 1], s4 = [1, 1],
               s5 = [1, 1], s6 = [1, 1], s7 = [1, 1], s8 = [1, 1]\<rparr>"

text \<open>
  A column of two fluid cells at the uniform equilibrium of density 1, as
  \<^verbatim>\<open>initialise\<close> builds it, with \<open>omega = 1\<close> and no acceleration.
\<close>

definition bgk_params :: t_param where
  "bgk_params = \<lparr>nx = 1, ny = 2, maxIters = 1, reynolds_dim = 1,
                  density = 1, accel = 0, omega = 1\<rparr>"

definition eq_grid :: soa where
  "eq_grid = \<lparr>s0 = [4 / 9, 4 / 9], s1 = [1 / 9, 1 / 9], s2 = [1 / 9, 1 / 9],
               s3 = [1 / 9, 1 / 9], s4 = [1 / 9, 1 / 9], s5 = [1 / 36, 1 / 36],
               s6 = [1 / 36, 1 / 36], s7 = [1 / 36, 1 / 36], s8 = [1 / 36, 1 / 36]\<rparr>"

text \<open>
  An environment in which every file opens and every allocation succeeds, one in which
  the first allocation fails, and one in which the last allocation fails.
\<close>

definition good_env :: environment where
  "good_env = \<lparr>paramfile = ''input.params'', paramfile_opens = True,
     scan_nx = Some 1, scan_ny = Some 2, scan_maxIters = Some 1, scan_reynolds_dim = Some 1,
     scan_density = Some 1, scan_accel = Some 0, scan_omega = Some 1,
     heap = (\<lambda>k. True), fresh_float = 7, fresh_int = 7,
     obstaclefile = ''obstacles.dat'', obstaclefile_opens = True, obstacle_lines = []\<rparr>"

definition bad_env :: environment where
  "bad_env = good_env\<lparr>heap := (\<lambda>k. k \<noteq> 0)\<rparr>"

definition bad_env' :: environment where
  "bad_env' = good_env\<lparr>heap := (\<lambda>k. k \<noteq> 19)\<rparr>"

section \<open>The loops of the fused kernel\<close>

lemma cell_index_less:
  assumes "ii < (n::nat)" "jj < m"
  shows "ii + jj * n < n * m"
proof -
  have "ii + jj * n < n + jj * n" using assms(1) by simp
  also have "\<dots> = Suc jj * n" by simp
  also have "\<dots> \<le> m * n" using assms(2) by (intro mult_le_mono1) simp
  finally show ?thesis by (simp add: mult.commute)
qed

lemma upt_0_2: "[0..<2] = [0, Suc 0]"
  by (simp add: upt_rec)

lemma upt_0_4: "[0..<4] = [0, Suc 0, 2, 3]"
  by (simp add: upt_rec)

lemma fusion_cell_obstacle:
  assumes "grid_ok params tmp" "ii < nat (nx params)" "jj < nat (ny params)"
    and "obstacles ! (ii + jj * nat (nx params)) \<noteq> 0"
  shows "fusion_cell params obstacles d grid jj ii (tmp, tu, tc) =
           (put_cell tmp (ii + jj * nat (nx params)) (mirrored (streamed params grid jj ii)), tu, tc)"
proof -
  have "ii + jj * nat (nx params) < nat (nx params) * nat (ny params)"
    using assms(2,3) by (rule cell_index_less)
  then show ?thesis
    using assms(1,4)
    by (simp add: fusion_cell_def grid_ok_def put_cell_def mirrored_def streamed_def Let_def add.commute)
qed

lemma fusion_cell_fluid:
  assumes "grid_ok params tmp" "ii < nat (nx params)" "jj < nat (ny params)"
    and "obstacles ! (ii + jj * nat (nx params)) = 0"
  shows "fusion_cell params obstacles d grid jj ii (tmp, tu, tc) =
           (put_cell tmp (ii + jj * nat (nx params))
              (relaxed (omega params) d (streamed params grid jj ii)),
            Option.bind tu (\<lambda>t. Option.bind
              (speed_of (relaxed (omega params) d (streamed params grid jj ii)))
              (\<lambda>v. Some (t + v))),
            tc + 1)"
proof -
  have "ii + jj * nat (nx params) < nat (nx params) * nat (ny params)"
    using assms(2,3) by (rule cell_index_less)
  then show ?thesis
    using assms(1,4)
    by (simp add: fusion_cell_def grid_ok_def put_cell_def relaxed_def streamed_def Let_def
        speed_of_def add.commute)
qed

lemma fold_product:
  "fold (\<lambda>jj. fold (f jj) xs) ys = fold (\<lambda>(jj, ii). f jj ii) (List.product ys xs)"
  by (induction ys) (simp_all add: fold_map comp_def)

lemma fusion_cell_split:
  assumes "grid_ok params tmp" "ii < nat (nx params)" "jj < nat (ny params)"
  shows "fusion_cell params obstacles d grid jj ii (tmp, a) =
           (put_cell tmp (ii + jj * nat (nx params)) (cell_new params obstacles d grid jj ii),
            acc_step params obstacles d grid jj ii a)"
proof (cases a)
  case (Pair tu tc)
  show ?thesis
  proof (cases "obstacles ! (ii + jj * nat (nx params)) = 0")
    case True
    then show ?thesis
      using fusion_cell_fluid [OF assms True, of d grid tu tc] Pair
      by (simp add: cell_new_def acc_step_def)
  next
    case False
    then show ?thesis
      using fusion_cell_obstacle [OF assms False, of d grid tu tc] Pair
      by (simp add: cell_new_def acc_step_def)
  qed
qed

lemma grid_ok_put_cell [simp]: "grid_ok params (put_cell g c vs) = grid_ok params g"
  by (simp add: grid_ok_def put_cell_def)

lemma cell_at_put_cell:
  assumes "grid_ok params g" "c < nat (nx params) * nat (ny params)"
  shows "cell_at (put_cell g c vs) c' =
           (if c' = c then [vs ! 0, vs ! 1, vs ! 2, vs ! 3, vs ! 4, vs ! 5, vs ! 6, vs ! 7, vs ! 8]
            else cell_at g c')"
  using assms by (simp add: cell_at_def put_cell_def grid_ok_def)

lemma nine_cell_new:
  "[cell_new params obstacles d grid jj ii ! 0, cell_new params obstacles d grid jj ii ! 1,
    cell_new params obstacles d grid jj ii ! 2, cell_new params obstacles d grid jj ii ! 3,
    cell_new params obstacles d grid jj ii ! 4, cell_new params obstacles d grid jj ii ! 5,
    cell_new params obstacles d grid jj ii ! 6, cell_new params obstacles d grid jj ii ! 7,
    cell_new params obstacles d grid jj ii ! 8] = cell_new params obstacles d grid jj ii"
  by (simp add: cell_new_def mirrored_def relaxed_def)

lemma length_cell_new [simp]: "length (cell_new params obstacles d grid jj ii) = 9"
  by (simp add: cell_new_def mirrored_def relaxed_def)

lemma cell_at_put_cell_new:
  assumes "grid_ok params g" "c < nat (nx params) * nat (ny params)"
  shows "cell_at (put_cell g c (cell_new params obstacles d grid jj ii)) c' =
           (if c' = c then cell_new params obstacles d grid jj ii else cell_at g c')"
  unfolding cell_at_put_cell [OF assms] nine_cell_new ..

lemma put_cells_Nil [simp]: "put_cells params obstacles d grid [] tmp = tmp"
  by (simp add: put_cells_def)

lemma put_cells_Cons [simp]:
  "put_cells params obstacles d grid ((jj, ii) # cs) tmp =
     put_cells params obstacles d grid cs
       (put_cell tmp (ii + jj * nat (nx params)) (cell_new params obstacles d grid jj ii))"
  by (simp add: put_cells_def)

lemma acc_cells_Nil [simp]: "acc_cells params obstacles d grid [] a = a"
  by (simp add: acc_cells_def)

lemma acc_cells_Cons [simp]:
  "acc_cells params obstacles d grid ((jj, ii) # cs) a =
     acc_cells params obstacles d grid cs (acc_step params obstacles d grid jj ii a)"
  by (simp add: acc_cells_def)

lemma grid_ok_put_cells [simp]:
  "grid_ok params (put_cells params obstacles d grid cs tmp) = grid_ok params tmp"
proof (induction cs arbitrary: tmp)
  case Nil
  show ?case by simp
next
  case (Cons x cs)
  obtain jj ii where "x = (jj, ii)" by (cases x)
  then show ?case using Cons.IH by simp
qed

lemma fold_fusion_cell:
  assumes "grid_ok params tmp"
    and "\<forall>(jj, ii) \<in> set cs. ii < nat (nx params) \<and> jj < nat (ny params)"
  shows "fold (\<lambda>(jj, ii). fusion_cell params obstacles d grid jj ii) cs (tmp, a) =
           (put_cells params obstacles d grid cs tmp, acc_cells params obstacles d grid cs a)"
  using assms
proof (induction cs arbitrary: tmp a)
  case Nil
  then show ?case by simp
next
  case (Cons x cs)
  obtain jj ii where x: "x = (jj, ii)" by (cases x)
  from Cons.prems x have b: "ii < nat (nx params)" "jj < nat (ny params)" by auto
  have "fold (\<lambda>(jj, ii). fusion_cell params obstacles d grid jj ii) (x # cs) (tmp, a) =
        fold (\<lambda>(jj, ii). fusion_cell params obstacles d grid jj ii) cs
          (put_cell tmp (ii + jj * nat (nx params)) (cell_new params obstacles d grid jj ii),
           acc_step params obstacles d grid jj ii a)"
    using fusion_cell_split [OF Cons.prems(1) b] x by simp
  also have "\<dots> = (put_cells params obstacles d grid cs
                      (put_cell tmp (ii + jj * nat (nx params))
                         (cell_new params obstacles d grid jj ii)),
                    acc_cells params obstacles d grid cs
                      (acc_step params obstacles d grid jj ii a))"
    using Cons.prems by (intro Cons.IH) auto
  finally show ?case using x by simp
qed

lemma fusion_loop_split:
  assumes "grid_ok params tmp"
  shows "fusion_loop params obstacles d grid tmp =
           (put_cells params obstacles d grid (all_cells params) tmp,
            acc_cells params obstacles d grid (all_cells params) (Some 0, 0))"
  unfolding fusion_loop_def fold_product all_cells_def
  by (rule fold_fusion_cell [OF assms]) auto

lemma cell_index_inj:
  assumes "ii < (n::nat)" "ii' < n" "ii + jj * n = ii' + jj' * n"
  shows "ii = ii' \<and> jj = jj'"
proof -
  have "(ii + jj * n) mod n = ii" "(ii' + jj' * n) mod n = ii'"
    using assms(1,2) by simp_all
  then have i: "ii = ii'" using assms(3) by simp
  have "(ii + jj * n) div n = jj" "(ii' + jj' * n) div n = jj'"
    using assms(1,2) by simp_all
  moreover have "0 < n" using assms(1) by simp
  ultimately show ?thesis using assms(3) i by simp
qed

lemma cell_at_put_cells:
  assumes "grid_ok params tmp"
    and "\<forall>(jj, ii) \<in> set cs. ii < nat (nx params) \<and> jj < nat (ny params)"
    and "ii < nat (nx params)"
  shows "cell_at (put_cells params obstacles d grid cs tmp) (ii + jj * nat (nx params)) =
           (if (jj, ii) \<in> set cs then cell_new params obstacles d grid jj ii
            else cell_at tmp (ii + jj * nat (nx params)))"
  using assms(1,2)
proof (induction cs arbitrary: tmp)
  case Nil
  then show ?case by simp
next
  case (Cons x cs)
  obtain j i where x: "x = (j, i)" by (cases x)
  from Cons.prems x have b: "i < nat (nx params)" "j < nat (ny params)" by auto
  let ?t = "put_cell tmp (i + j * nat (nx params)) (cell_new params obstacles d grid j i)"
  have step: "put_cells params obstacles d grid (x # cs) tmp =
              put_cells params obstacles d grid cs ?t"
    using x by simp
  have ih: "cell_at (put_cells params obstacles d grid cs ?t) (ii + jj * nat (nx params)) =
           (if (jj, ii) \<in> set cs then cell_new params obstacles d grid jj ii
            else cell_at ?t (ii + jj * nat (nx params)))"
    using Cons.prems by (intro Cons.IH) auto
  have here: "cell_at ?t (ii + jj * nat (nx params)) =
           (if (jj, ii) = (j, i) then cell_new params obstacles d grid jj ii
            else cell_at tmp (ii + jj * nat (nx params)))"
    using cell_at_put_cell_new [OF Cons.prems(1) cell_index_less [OF b], of
        obstacles d grid j i "ii + jj * nat (nx params)"]
      cell_index_inj [OF assms(3) b(1), of jj j]
    by auto
  show ?case unfolding step ih here using x by auto
qed

lemma cell_at_fusion_loop:
  assumes "grid_ok params tmp" "ii < nat (nx params)" "jj < nat (ny params)"
  shows "cell_at (fst (fusion_loop params obstacles d grid tmp)) (ii + jj * nat (nx params)) =
           cell_new params obstacles d grid jj ii"
  using cell_at_put_cells [OF assms(1) _ assms(2), of "all_cells params" obstacles d grid jj]
    assms(2,3)
  by (simp add: fusion_loop_split [OF assms(1)] all_cells_def)

lemma product_append:
  "List.product (xs @ ys) zs = List.product xs zs @ List.product ys zs"
  by (induction xs) simp_all

lemma cell_indices:
  "map (\<lambda>(jj, ii). ii + jj * n) (List.product [0..<m] [0..<n]) = [0..<n * m]"
proof (induction m)
  case 0
  show ?case by simp
next
  case (Suc m)
  have "map (\<lambda>(jj, ii). ii + jj * n) (List.product [0..<Suc m] [0..<n])
        = [0..<n * m] @ map (\<lambda>ii. ii + m * n) [0..<n]"
    using Suc by (simp add: product_append comp_def)
  also have "map (\<lambda>ii. ii + m * n) [0..<n] = [m * n..<n + m * n]"
    by (rule map_add_upt)
  also have "[0..<n * m] @ [m * n..<n + m * n] = [0..<n * Suc m]"
    using upt_add_eq_append [of 0 "n * m" n] by (simp add: mult.commute add.commute)
  finally show ?case .
qed

lemma snd_acc_cells:
  "snd (acc_cells params obstacles d grid cs a)
     = snd a + length (filter (\<lambda>(jj, ii). obstacles ! (ii + jj * nat (nx params)) = 0) cs)"
proof (induction cs arbitrary: a)
  case Nil
  show ?case by simp
next
  case (Cons x cs)
  obtain jj ii where x: "x = (jj, ii)" by (cases x)
  show ?case unfolding x acc_cells_Cons Cons.IH by (simp add: acc_step_def)
qed

lemma fusion_counts_fluid_cells:
  assumes "grid_ok params tmp"
  shows "snd (snd (fusion_loop params obstacles d grid tmp))
           = length (filter (\<lambda>c. obstacles ! c = 0) [0..<nat (nx params) * nat (ny params)])"
proof -
  have "length (filter (\<lambda>(jj, ii). obstacles ! (ii + jj * nat (nx params)) = 0) (all_cells params))
        = length (filter (\<lambda>c. obstacles ! c = 0)
            (map (\<lambda>(jj, ii). ii + jj * nat (nx params)) (all_cells params)))"
    by (simp add: filter_map comp_def case_prod_unfold)
  also have "map (\<lambda>(jj, ii). ii + jj * nat (nx params)) (all_cells params)
               = [0..<nat (nx params) * nat (ny params)]"
    unfolding all_cells_def by (rule cell_indices)
  finally show ?thesis
    by (simp add: fusion_loop_split [OF assms] snd_acc_cells)
qed

section \<open>Obstacle cells\<close>

lemma fst_fusion: "fst (fusion params obstacles d grid tmp) = fst (fusion_loop params obstacles d grid tmp)"
  by (simp add: fusion_def split: prod.splits)

lemma snd_fusion_cell_obstacle:
  assumes "obstacles ! (ii + jj * nat (nx params)) \<noteq> 0"
  shows "snd (fusion_cell params obstacles d grid jj ii st) = snd st"
  using assms by (simp add: fusion_cell_def Let_def add.commute split: prod.splits)

lemma wrap_west:
  assumes "ii < (n::nat)"
  shows "(if ii = 0 then ii + n - 1 else ii - 1) = (ii + n - 1) mod n"
proof (cases "ii = 0")
  case True
  then show ?thesis using assms by simp
next
  case False
  then have "ii + n - 1 = (ii - 1) + n" by simp
  then have "(ii + n - 1) mod n = (ii - 1) mod n" by simp
  also have "\<dots> = ii - 1" using assms by simp
  finally show ?thesis using False by simp
qed

lemma streamed_eq:
  assumes "ii < nat (nx params)" "jj < nat (ny params)"
  shows "streamed params grid jj ii =
     [s0 grid ! (ii + jj * nat (nx params)),
      s1 grid ! ((ii + nat (nx params) - 1) mod nat (nx params) + jj * nat (nx params)),
      s2 grid ! (ii + ((jj + nat (ny params) - 1) mod nat (ny params)) * nat (nx params)),
      s3 grid ! ((ii + 1) mod nat (nx params) + jj * nat (nx params)),
      s4 grid ! (ii + ((jj + 1) mod nat (ny params)) * nat (nx params)),
      s5 grid ! ((ii + nat (nx params) - 1) mod nat (nx params)
                 + ((jj + nat (ny params) - 1) mod nat (ny params)) * nat (nx params)),
      s6 grid ! ((ii + 1) mod nat (nx params)
                 + ((jj + nat (ny params) - 1) mod nat (ny params)) * nat (nx params)),
      s7 grid ! ((ii + 1) mod nat (nx params)
                 + ((jj + 1) mod nat (ny params)) * nat (nx params)),
      s8 grid ! ((ii + nat (nx params) - 1) mod nat (nx params)
                 + ((jj + 1) mod nat (ny params)) * nat (nx params))]"
  unfolding streamed_def Let_def wrap_west [OF assms(1)] wrap_west [OF assms(2)] by simp

text \<open>
  Claim C3. At an obstacle cell, one run of the fused kernel leaves in the scratch grid
  the streamed values with opposite directions exchanged (0 stays, 1 and 3, 2 and 4,
  5 and 7, 6 and 8 are swapped): no value depends on \<open>omega\<close> or on \<open>d_equ\<close>, so no
  relaxation is applied. The loop body for that cell returns the velocity sum and the
  cell count it was given, and the cell count at the end of the loops is the number of
  cells that are not obstacles.
\<close>

theorem obstacle_cell_bounce_back:
  assumes "grid_ok params tmp_grid"
    and "ii < nat (nx params)" and "jj < nat (ny params)"
    and "obstacles ! (ii + jj * nat (nx params)) \<noteq> 0"
  shows "let NX = nat (nx params); NY = nat (ny params);
             x_e = (ii + 1) mod NX; x_w = (ii + NX - 1) mod NX;
             y_n = (jj + 1) mod NY; y_s = (jj + NY - 1) mod NY;
             c = ii + jj * NX;
             scratch = fst (fusion params obstacles d_equ grid tmp_grid)
         in s0 scratch ! c = s0 grid ! (ii + jj * NX)
          \<and> s1 scratch ! c = s3 grid ! (x_e + jj * NX)
          \<and> s2 scratch ! c = s4 grid ! (ii + y_n * NX)
          \<and> s3 scratch ! c = s1 grid ! (x_w + jj * NX)
          \<and> s4 scratch ! c = s2 grid ! (ii + y_s * NX)
          \<and> s5 scratch ! c = s7 grid ! (x_e + y_n * NX)
          \<and> s6 scratch ! c = s8 grid ! (x_w + y_n * NX)
          \<and> s7 scratch ! c = s5 grid ! (x_w + y_s * NX)
          \<and> s8 scratch ! c = s6 grid ! (x_e + y_s * NX)
          \<and> snd (fusion_cell params obstacles d_equ grid jj ii (t, tot_u, tot_cells))
              = (tot_u, tot_cells)
          \<and> snd (snd (fusion_loop params obstacles d_equ grid tmp_grid))
              = length (filter (\<lambda>c. obstacles ! c = 0) [0..<NX * NY])"
proof -
  have "cell_at (fst (fusion params obstacles d_equ grid tmp_grid))
          (ii + jj * nat (nx params)) = mirrored (streamed params grid jj ii)"
    using cell_at_fusion_loop [OF assms(1-3), of obstacles d_equ grid] assms(4)
    by (simp add: fst_fusion cell_new_def)
  then have cells: "cell_at (fst (fusion params obstacles d_equ grid tmp_grid))
          (ii + jj * nat (nx params)) = mirrored
     [s0 grid ! (ii + jj * nat (nx params)),
      s1 grid ! ((ii + nat (nx params) - 1) mod nat (nx params) + jj * nat (nx params)),
      s2 grid ! (ii + ((jj + nat (ny params) - 1) mod nat (ny params)) * nat (nx params)),
      s3 grid ! ((ii + 1) mod nat (nx params) + jj * nat (nx params)),
      s4 grid ! (ii + ((jj + 1) mod nat (ny params)) * nat (nx params)),
      s5 grid ! ((ii + nat (nx params) - 1) mod nat (nx params)
                 + ((jj + nat (ny params) - 1) mod nat (ny params)) * nat (nx params)),
      s6 grid ! ((ii + 1) mod nat (nx params)
                 + ((jj + nat (ny params) - 1) mod nat (ny params)) * nat (nx params)),
      s7 grid ! ((ii + 1) mod nat (nx params)
                 + ((jj + 1) mod nat (ny params)) * nat (nx params)),
      s8 grid ! ((ii + nat (nx params) - 1) mod nat (nx params)
                 + ((jj + 1) mod nat (ny params)) * nat (nx params))]"
    by (simp only: streamed_eq [OF assms(2,3)])
  have acc: "snd (fusion_cell params obstacles d_equ grid jj ii (t, tot_u, tot_cells))
              = (tot_u, tot_cells)"
    using snd_fusion_cell_obstacle [OF assms(4)] by simp
  have count: "snd (snd (fusion_loop params obstacles d_equ grid tmp_grid))
              = length (filter (\<lambda>c. obstacles ! c = 0) [0..<nat (nx params) * nat (ny params)])"
    by (rule fusion_counts_fluid_cells [OF assms(1)])
  show ?thesis
    using cells acc count unfolding Let_def by (simp add: cell_at_def mirrored_def)
qed

theorem obstacle_cell_bounce_back_witness:
  "grid_ok ex_params ex_scratch \<and> (0::nat) < nat (nx ex_params) \<and> (0::nat) < nat (ny ex_params)
   \<and> [1, 0, 0, 0 :: int] ! (0 + 0 * nat (nx ex_params)) \<noteq> 0
   \<and> s1 (fst (fusion ex_params [1, 0, 0, 0] d_ones ex_grid ex_scratch)) ! 0 = 32
   \<and> s5 (fst (fusion ex_params [1, 0, 0, 0] d_ones ex_grid ex_scratch)) ! 0 = 74
   \<and> s8 (fst (fusion ex_params [1, 0, 0, 0] d_ones ex_grid ex_scratch)) ! 0 = 64
   \<and> snd (snd (fusion_loop ex_params [1, 0, 0, 0] d_ones ex_grid ex_scratch)) = 3"
proof -
  have h: "grid_ok ex_params ex_scratch" "(0::nat) < nat (nx ex_params)"
    "(0::nat) < nat (ny ex_params)" "[1, 0, 0, 0 :: int] ! (0 + 0 * nat (nx ex_params)) \<noteq> 0"
    by (simp_all add: grid_ok_def ex_params_def ex_scratch_def)
  show ?thesis
    using h obstacle_cell_bounce_back [OF h, of d_ones ex_grid]
    by (simp add: Let_def ex_params_def ex_grid_def upt_0_4)
qed

lemma bounce_back_fields:
  assumes "grid_ok params tmp"
    and "ii < nat (nx params)" and "jj < nat (ny params)"
    and "obstacles ! (ii + jj * nat (nx params)) \<noteq> 0"
  shows "cell_at (fst (fusion params obstacles d grid tmp)) (ii + jj * nat (nx params)) =
     [s0 grid ! (ii + jj * nat (nx params)),
      s3 grid ! ((ii + 1) mod nat (nx params) + jj * nat (nx params)),
      s4 grid ! (ii + ((jj + 1) mod nat (ny params)) * nat (nx params)),
      s1 grid ! ((ii + nat (nx params) - 1) mod nat (nx params) + jj * nat (nx params)),
      s2 grid ! (ii + ((jj + nat (ny params) - 1) mod nat (ny params)) * nat (nx params)),
      s7 grid ! ((ii + 1) mod nat (nx params)
                 + ((jj + 1) mod nat (ny params)) * nat (nx params)),
      s8 grid ! ((ii + nat (nx params) - 1) mod nat (nx params)
                 + ((jj + 1) mod nat (ny params)) * nat (nx params)),
      s5 grid ! ((ii + nat (nx params) - 1) mod nat (nx params)
                 + ((jj + nat (ny params) - 1) mod nat (ny params)) * nat (nx params)),
      s6 grid ! ((ii + 1) mod nat (nx params)
                 + ((jj + nat (ny params) - 1) mod nat (ny params)) * nat (nx params))]"
proof -
  have "cell_at (fst (fusion params obstacles d grid tmp))
          (ii + jj * nat (nx params)) = mirrored (streamed params grid jj ii)"
    using cell_at_fusion_loop [OF assms(1-3), of obstacles d grid] assms(4)
    by (simp add: fst_fusion cell_new_def)
  then show ?thesis
    unfolding streamed_eq [OF assms(2,3)] by (simp add: mirrored_def)
qed

lemma east_of_west:
  assumes "ii < (n::nat)"
  shows "((ii + n - 1) mod n + 1) mod n = ii"
proof -
  have "((ii + n - 1) mod n + 1) mod n = (ii + n - 1 + 1) mod n"
    by (rule mod_add_left_eq)
  also have "ii + n - 1 + 1 = ii + n" using assms by simp
  finally show ?thesis using assms by simp
qed

lemma west_of_east:
  assumes "ii < (n::nat)"
  shows "((ii + 1) mod n + n - 1) mod n = ii"
proof -
  have "(ii + 1) mod n + n - 1 = (ii + 1) mod n + (n - 1)" using assms by simp
  then have "((ii + 1) mod n + n - 1) mod n = ((ii + 1) mod n + (n - 1)) mod n"
    by (rule arg_cong)
  also have "\<dots> = (ii + 1 + (n - 1)) mod n"
    by (rule mod_add_left_eq)
  also have "ii + 1 + (n - 1) = ii + n" using assms by simp
  finally show ?thesis using assms by simp
qed

lemma grid_ok_fusion [simp]:
  assumes "grid_ok params tmp"
  shows "grid_ok params (fst (fusion params obstacles d grid tmp))"
  using assms by (simp add: fst_fusion fusion_loop_split)

lemma fold_fusion_cell_obstacles:
  assumes "\<forall>(jj, ii) \<in> set cs. obstacles ! (ii + jj * nat (nx params)) \<noteq> 0"
  shows "snd (fold (\<lambda>(jj, ii). fusion_cell params obstacles d grid jj ii) cs st) = snd st"
  using assms
proof (induction cs arbitrary: st)
  case Nil
  show ?case by simp
next
  case (Cons x cs)
  obtain jj ii where x: "x = (jj, ii)" by (cases x)
  have "snd (fold (\<lambda>(jj, ii). fusion_cell params obstacles d grid jj ii) cs
               (fusion_cell params obstacles d grid jj ii st))
        = snd (fusion_cell params obstacles d grid jj ii st)"
    using Cons.prems by (intro Cons.IH) simp
  also have "\<dots> = snd st"
    using Cons.prems x by (intro snd_fusion_cell_obstacle) simp
  finally show ?case using x by simp
qed

lemma all_cells_obstacles:
  assumes "\<forall>c < nat (nx params) * nat (ny params). obstacles ! c \<noteq> 0"
  shows "\<forall>(jj, ii) \<in> set (all_cells params). obstacles ! (ii + jj * nat (nx params)) \<noteq> 0"
  using assms cell_index_less by (auto simp: all_cells_def)

lemma fusion_loop_all_obstacles:
  assumes "\<forall>c < nat (nx params) * nat (ny params). obstacles ! c \<noteq> 0"
  shows "snd (fusion_loop params obstacles d grid tmp) = (Some 0, 0)"
  using fold_fusion_cell_obstacles [OF all_cells_obstacles [OF assms], of d grid "(tmp, Some 0, 0)"]
  by (simp add: fusion_loop_def fold_product all_cells_def)

lemma av_velocity_cell_obstacle:
  assumes "obstacles ! (ii + jj * nat (nx params)) \<noteq> 0"
  shows "av_velocity_cell params obstacles grid jj ii st = st"
  using assms by (simp add: av_velocity_cell_def split: prod.splits)

lemma fold_av_velocity_cell_obstacles:
  assumes "\<forall>(jj, ii) \<in> set cs. obstacles ! (ii + jj * nat (nx params)) \<noteq> 0"
  shows "fold (\<lambda>(jj, ii). av_velocity_cell params obstacles grid jj ii) cs st = st"
  using assms
proof (induction cs arbitrary: st)
  case Nil
  show ?case by simp
next
  case (Cons x cs)
  obtain jj ii where x: "x = (jj, ii)" by (cases x)
  have "fold (\<lambda>(jj, ii). av_velocity_cell params obstacles grid jj ii) cs
               (av_velocity_cell params obstacles grid jj ii st)
        = av_velocity_cell params obstacles grid jj ii st"
    using Cons.prems by (intro Cons.IH) simp
  also have "\<dots> = st"
    using Cons.prems x by (intro av_velocity_cell_obstacle) simp
  finally show ?case using x by simp
qed

text \<open>
  Claim C10. When every cell of the grid is an obstacle, the loops of the fused kernel
  end with the velocity sum 0 and the cell count 0, and the value returned is the
  division of 0 by 0, which has no guard and is not a real number (\<open>None\<close>). The
  same holds for the division at the end of \<^verbatim>\<open>av_velocity\<close>, so \<^verbatim>\<open>calc_reynolds\<close>
  has no real value either.
\<close>

theorem all_obstacles_zero_division:
  assumes "\<forall>c < nat (nx params) * nat (ny params). obstacles ! c \<noteq> 0"
  shows "snd (fusion_loop params obstacles d_equ grid tmp_grid) = (Some 0, 0)
       \<and> snd (fusion params obstacles d_equ grid tmp_grid) = fdiv 0 (real (0::nat))
       \<and> fdiv 0 (real (0::nat)) = None
       \<and> av_velocity params obstacles grid = fdiv 0 (real (0::nat))
       \<and> calc_reynolds params obstacles grid = None"
proof -
  have a: "snd (fusion_loop params obstacles d_equ grid tmp_grid) = (Some 0, 0)"
    by (rule fusion_loop_all_obstacles [OF assms])
  then have b: "snd (fusion params obstacles d_equ grid tmp_grid) = fdiv 0 (real (0::nat))"
    by (cases "fusion_loop params obstacles d_equ grid tmp_grid") (simp add: fusion_def)
  have "fold (\<lambda>jj. fold (\<lambda>ii. av_velocity_cell params obstacles grid jj ii)
                           [0..<nat (nx params)])
               [0..<nat (ny params)] (Some 0, 0) = (Some 0, 0)"
    using fold_av_velocity_cell_obstacles [OF all_cells_obstacles [OF assms], of grid "(Some 0, 0)"]
    by (simp add: fold_product all_cells_def)
  then have c: "av_velocity params obstacles grid = fdiv 0 (real (0::nat))"
    by (simp add: av_velocity_def)
  have z: "fdiv 0 (real (0::nat)) = None" by (simp add: fdiv_def)
  have r: "calc_reynolds params obstacles grid = None"
    unfolding calc_reynolds_def c z by (cases "fdiv 2 (omega params)") (simp_all add: Let_def)
  show ?thesis using a b c z r by simp
qed

theorem all_obstacles_zero_division_witness:
  "snd (fusion ex_params [1, 1, 1, 1] d_ones ex_grid ex_scratch) = None
   \<and> av_velocity ex_params [1, 1, 1, 1] ex_grid = None
   \<and> calc_reynolds ex_params [1, 1, 1, 1] ex_grid = None"
proof -
  have h: "\<forall>c < nat (nx ex_params) * nat (ny ex_params). [1, 1, 1, 1 :: int] ! c \<noteq> 0"
    by (auto simp: ex_params_def nth_Cons' )
  show ?thesis
    using all_obstacles_zero_division [OF h, of d_ones ex_grid ex_scratch] by simp
qed

lemma nth_fields:
  "s0 g ! c = cell_at g c ! 0" "s1 g ! c = cell_at g c ! 1" "s2 g ! c = cell_at g c ! 2"
  "s3 g ! c = cell_at g c ! 3" "s4 g ! c = cell_at g c ! 4" "s5 g ! c = cell_at g c ! 5"
  "s6 g ! c = cell_at g c ! 6" "s7 g ! c = cell_at g c ! 7" "s8 g ! c = cell_at g c ! 8"
  by (simp_all add: cell_at_def)

lemma mod_less_dim: "ii < (n::nat) \<Longrightarrow> k mod n < n"
  by (cases "n = 0") simp_all

lemma bounce_back_twice:
  assumes okA: "grid_ok params grid" and okT: "grid_ok params tmp"
    and obst: "\<forall>c < nat (nx params) * nat (ny params). obstacles ! c \<noteq> 0"
    and ii: "ii < nat (nx params)" and jj: "jj < nat (ny params)"
  shows "cell_at (fst (fusion params obstacles d2
                   (fst (fusion params obstacles d1 grid tmp)) grid))
           (ii + jj * nat (nx params)) = cell_at grid (ii + jj * nat (nx params))"
proof -
  let ?n = "nat (nx params)" and ?m = "nat (ny params)"
  let ?B = "fst (fusion params obstacles d1 grid tmp)"
  have okB: "grid_ok params ?B" using okT by simp
  have ob: "obstacles ! (i + j * ?n) \<noteq> 0" if "i < ?n" "j < ?m" for i j
    using obst cell_index_less [OF that] by simp
  have e: "(ii + 1) mod ?n < ?n" and w: "(ii + ?n - 1) mod ?n < ?n"
    using ii by (simp_all add: mod_less_dim)
  have n: "(jj + 1) mod ?m < ?m" and s: "(jj + ?m - 1) mod ?m < ?m"
    using jj by (simp_all add: mod_less_dim)
  note first = bounce_back_fields [OF okT _ _ ob, of _ _ d1 grid]
  have c0: "cell_at ?B (ii + jj * ?n) ! 0 = s0 grid ! (ii + jj * ?n)"
    unfolding first [OF ii jj ii jj] by simp
  have c1: "cell_at ?B ((ii + ?n - 1) mod ?n + jj * ?n) ! 1 = s3 grid ! (ii + jj * ?n)"
    unfolding first [OF w jj w jj] east_of_west [OF ii] by simp
  have c3: "cell_at ?B ((ii + 1) mod ?n + jj * ?n) ! 3 = s1 grid ! (ii + jj * ?n)"
    unfolding first [OF e jj e jj] west_of_east [OF ii] by simp
  have c2: "cell_at ?B (ii + ((jj + ?m - 1) mod ?m) * ?n) ! 2 = s4 grid ! (ii + jj * ?n)"
    unfolding first [OF ii s ii s] east_of_west [OF jj] by simp
  have c4: "cell_at ?B (ii + ((jj + 1) mod ?m) * ?n) ! 4 = s2 grid ! (ii + jj * ?n)"
    unfolding first [OF ii n ii n] west_of_east [OF jj] by simp
  have c5: "cell_at ?B ((ii + ?n - 1) mod ?n + ((jj + ?m - 1) mod ?m) * ?n) ! 5
              = s7 grid ! (ii + jj * ?n)"
    unfolding first [OF w s w s] east_of_west [OF ii] east_of_west [OF jj] by simp
  have c7: "cell_at ?B ((ii + 1) mod ?n + ((jj + 1) mod ?m) * ?n) ! 7
              = s5 grid ! (ii + jj * ?n)"
    unfolding first [OF e n e n] west_of_east [OF ii] west_of_east [OF jj] by simp
  have c6: "cell_at ?B ((ii + 1) mod ?n + ((jj + ?m - 1) mod ?m) * ?n) ! 6
              = s8 grid ! (ii + jj * ?n)"
    unfolding first [OF e s e s] west_of_east [OF ii] east_of_west [OF jj] by simp
  have c8: "cell_at ?B ((ii + ?n - 1) mod ?n + ((jj + 1) mod ?m) * ?n) ! 8
              = s6 grid ! (ii + jj * ?n)"
    unfolding first [OF w n w n] east_of_west [OF ii] west_of_east [OF jj] by simp
  show ?thesis
    unfolding bounce_back_fields [OF okA ii jj ob [OF ii jj], of d2 ?B] nth_fields
      c0 c1 c2 c3 c4 c5 c6 c7 c8
    by (simp add: cell_at_def)
qed

lemma cell_coords:
  assumes "c < n * (m::nat)"
  shows "c mod n < n" "c div n < m" "c mod n + (c div n) * n = c"
proof -
  have "0 < n" using assms by (cases "n = 0") simp_all
  then show "c mod n < n" by simp
  show "c div n < m" using assms by (simp add: less_mult_imp_div_less mult.commute)
  show "c mod n + (c div n) * n = c" by simp
qed

lemma soa_eqI:
  assumes ok: "grid_ok params g" "grid_ok params g'"
    and cells: "\<And>ii jj. ii < nat (nx params) \<Longrightarrow> jj < nat (ny params) \<Longrightarrow>
                  cell_at g (ii + jj * nat (nx params)) = cell_at g' (ii + jj * nat (nx params))"
  shows "g = g'"
proof -
  have at: "cell_at g c = cell_at g' c" if "c < nat (nx params) * nat (ny params)" for c
    using cells [OF cell_coords(1,2) [OF that]] cell_coords(3) [OF that] by simp
  have "s0 g = s0 g'" using ok at by (intro nth_equalityI) (simp_all add: grid_ok_def cell_at_def)
  moreover have "s1 g = s1 g'" using ok at by (intro nth_equalityI) (simp_all add: grid_ok_def cell_at_def)
  moreover have "s2 g = s2 g'" using ok at by (intro nth_equalityI) (simp_all add: grid_ok_def cell_at_def)
  moreover have "s3 g = s3 g'" using ok at by (intro nth_equalityI) (simp_all add: grid_ok_def cell_at_def)
  moreover have "s4 g = s4 g'" using ok at by (intro nth_equalityI) (simp_all add: grid_ok_def cell_at_def)
  moreover have "s5 g = s5 g'" using ok at by (intro nth_equalityI) (simp_all add: grid_ok_def cell_at_def)
  moreover have "s6 g = s6 g'" using ok at by (intro nth_equalityI) (simp_all add: grid_ok_def cell_at_def)
  moreover have "s7 g = s7 g'" using ok at by (intro nth_equalityI) (simp_all add: grid_ok_def cell_at_def)
  moreover have "s8 g = s8 g'" using ok at by (intro nth_equalityI) (simp_all add: grid_ok_def cell_at_def)
  ultimately show ?thesis by (intro soa.equality) simp_all
qed

lemma accelerate_cell_obstacle:
  assumes "obstacles ! (ii + jj * nat (nx params)) \<noteq> 0"
  shows "accelerate_cell params obstacles jj ii g = g"
  using assms by (simp add: accelerate_cell_def Let_def)

lemma accelerate_flow_all_obstacles:
  assumes "\<forall>c < nat (nx params) * nat (ny params). obstacles ! c \<noteq> 0" "2 \<le> ny params"
  shows "accelerate_flow params obstacles g = Some g"
proof -
  have j: "nat (ny params - 2) < nat (ny params)" using assms(2) by simp
  have "fold (accelerate_cell params obstacles (nat (ny params - 2))) xs g = g"
    if "\<forall>ii \<in> set xs. ii < nat (nx params)" for xs
    using that
  proof (induction xs)
    case Nil
    show ?case by simp
  next
    case (Cons i xs)
    have "obstacles ! (i + nat (ny params - 2) * nat (nx params)) \<noteq> 0"
      using assms(1) cell_index_less [OF _ j, of i "nat (nx params)"] Cons.prems by simp
    then show ?case using Cons by (simp add: accelerate_cell_obstacle)
  qed
  then show ?thesis using assms(2) by (simp add: accelerate_flow_def)
qed

text \<open>
  Claim C9. On a grid in which every cell is an obstacle, two runs of the fused kernel,
  the second reading what the first wrote and writing into the first one's input
  buffer (the swap of \<^verbatim>\<open>main\<close>), give back the starting grid exactly. So do two
  iterations of the loop of \<^verbatim>\<open>main\<close> on a grid with \<open>2 \<le> ny\<close>, whatever \<^verbatim>\<open>accel\<close>
  is: the acceleration stage skips obstacle cells.
\<close>

theorem bounce_back_involution:
  assumes "grid_ok params grid" and "grid_ok params tmp_grid"
    and "\<forall>c < nat (nx params) * nat (ny params). obstacles ! c \<noteq> 0"
  shows "fst (fusion params obstacles d_equ'
               (fst (fusion params obstacles d_equ grid tmp_grid)) grid) = grid
       \<and> (2 \<le> ny params \<and> maxIters params = 2 \<longrightarrow>
            (\<exists>tmp_grid' av_vels'.
               main_loop params obstacles d_equ grid tmp_grid av_vels
                 = Some (grid, tmp_grid', av_vels')))"
proof -
  have twice: "fst (fusion params obstacles d
               (fst (fusion params obstacles d_equ grid tmp_grid)) grid) = grid" for d
  proof (rule soa_eqI [where params = params])
    show "grid_ok params (fst (fusion params obstacles d
               (fst (fusion params obstacles d_equ grid tmp_grid)) grid))"
      using assms(1) by simp
    show "grid_ok params grid" by (rule assms(1))
    show "cell_at (fst (fusion params obstacles d
               (fst (fusion params obstacles d_equ grid tmp_grid)) grid))
          (ii + jj * nat (nx params)) = cell_at grid (ii + jj * nat (nx params))"
      if "ii < nat (nx params)" "jj < nat (ny params)" for ii jj
      by (rule bounce_back_twice [OF assms that])
  qed
  have "2 \<le> ny params \<and> maxIters params = 2 \<longrightarrow>
            (\<exists>tmp_grid' av_vels'.
               main_loop params obstacles d_equ grid tmp_grid av_vels
                 = Some (grid, tmp_grid', av_vels'))"
  proof
    assume a: "2 \<le> ny params \<and> maxIters params = 2"
    have m: "[0..<nat (maxIters params)] = [0, Suc 0]" using a by (simp add: upt_0_2)
    have acc: "accelerate_flow params obstacles g = Some g" for g
      using assms(3) a by (intro accelerate_flow_all_obstacles) simp_all
    obtain B av1 where f1: "fusion params obstacles d_equ grid tmp_grid = (B, av1)"
      by (cases "fusion params obstacles d_equ grid tmp_grid")
    obtain G av2 where f2: "fusion params obstacles d_equ B grid = (G, av2)"
      by (cases "fusion params obstacles d_equ B grid")
    have G: "G = grid" using twice [of d_equ] f1 f2 by simp
    have t1: "timestep params obstacles d_equ grid tmp_grid = Some (grid, B, av1)"
      by (simp add: timestep_def acc f1)
    have t2: "timestep params obstacles d_equ B grid = Some (B, grid, av2)"
      by (simp add: timestep_def acc f2 G)
    have "main_loop params obstacles d_equ grid tmp_grid av_vels
            = Some (grid, B, av_vels[0 := av1, Suc 0 := av2])"
      by (simp add: main_loop_def m main_step_def t1 t2)
    then show "\<exists>tmp_grid' av_vels'.
               main_loop params obstacles d_equ grid tmp_grid av_vels
                 = Some (grid, tmp_grid', av_vels')"
      by blast
  qed
  then show ?thesis using twice [of d_equ'] by blast
qed

theorem bounce_back_involution_witness:
  "fst (fusion ex_params [1, 1, 1, 1] d_ones
         (fst (fusion ex_params [1, 1, 1, 1] d_ones ex_grid ex_scratch)) ex_grid) = ex_grid
   \<and> (\<exists>tmp_grid' av_vels'.
         main_loop ex_params [1, 1, 1, 1] d_ones ex_grid ex_scratch [None, None]
           = Some (ex_grid, tmp_grid', av_vels'))"
proof -
  have h: "grid_ok ex_params ex_grid" "grid_ok ex_params ex_scratch"
    "\<forall>c < nat (nx ex_params) * nat (ny ex_params). [1, 1, 1, 1 :: int] ! c \<noteq> 0"
    by (auto simp: ex_params_def ex_grid_def ex_scratch_def grid_ok_def nth_Cons')
  have m: "2 \<le> ny ex_params \<and> maxIters ex_params = 2" by (simp add: ex_params_def)
  show ?thesis
    using bounce_back_involution [OF h, of d_ones d_ones "[None, None]"] m by blast
qed

section \<open>The acceleration stage\<close>

lemma put_cell_same: "put_cell g c (cell_at g c) = g"
  by (simp add: put_cell_def cell_at_def)

lemma accelerate_cell_eq:
  "accelerate_cell params obstacles jj ii g =
     put_cell g (ii + jj * nat (nx params))
       (accelerated params (obstacles ! (ii + jj * nat (nx params)))
          (cell_at g (ii + jj * nat (nx params))))"
  by (simp add: accelerate_cell_def accelerated_def Let_def put_cell_def cell_at_def)

lemma nine_accelerated:
  "[accelerated params flag f ! 0, accelerated params flag f ! 1, accelerated params flag f ! 2,
    accelerated params flag f ! 3, accelerated params flag f ! 4, accelerated params flag f ! 5,
    accelerated params flag f ! 6, accelerated params flag f ! 7, accelerated params flag f ! 8]
   = accelerated params flag f"
  by (simp add: accelerated_def Let_def)

lemma cell_at_accelerate_cell:
  assumes "grid_ok params g" "ii < nat (nx params)" "jj < nat (ny params)"
  shows "cell_at (accelerate_cell params obstacles jj ii g) c =
           (if c = ii + jj * nat (nx params)
            then accelerated params (obstacles ! c) (cell_at g c) else cell_at g c)"
  unfolding accelerate_cell_eq cell_at_put_cell [OF assms(1) cell_index_less [OF assms(2,3)]]
    nine_accelerated
  by simp

lemma grid_ok_accelerate_cell [simp]:
  "grid_ok params (accelerate_cell params obstacles jj ii g) = grid_ok params g"
  by (simp add: accelerate_cell_eq)

lemma accelerate_row:
  assumes "grid_ok params g" "jj < nat (ny params)" "k \<le> nat (nx params)"
  shows "grid_ok params (fold (accelerate_cell params obstacles jj) [0..<k] g)
       \<and> (\<forall>c. cell_at (fold (accelerate_cell params obstacles jj) [0..<k] g) c =
             (if jj * nat (nx params) \<le> c \<and> c < jj * nat (nx params) + k
              then accelerated params (obstacles ! c) (cell_at g c) else cell_at g c))"
  using assms(3)
proof (induction k)
  case 0
  show ?case using assms(1) by auto
next
  case (Suc k)
  let ?r = "fold (accelerate_cell params obstacles jj) [0..<k] g"
  from Suc have ih: "grid_ok params ?r"
    "\<And>c. cell_at ?r c =
             (if jj * nat (nx params) \<le> c \<and> c < jj * nat (nx params) + k
              then accelerated params (obstacles ! c) (cell_at g c) else cell_at g c)"
    by simp_all
  have k: "k < nat (nx params)" using Suc.prems by simp
  have step: "fold (accelerate_cell params obstacles jj) [0..<Suc k] g
                = accelerate_cell params obstacles jj k ?r"
    by simp
  show ?case
    unfolding step
    using ih(1) cell_at_accelerate_cell [OF ih(1) k assms(2), of obstacles] ih(2)
    by (auto simp: add.commute)
qed

lemma row_range:
  assumes "ii < (n::nat)"
  shows "(j0 * n \<le> ii + jj * n \<and> ii + jj * n < j0 * n + n) \<longleftrightarrow> jj = j0"
proof
  assume a: "j0 * n \<le> ii + jj * n \<and> ii + jj * n < j0 * n + n"
  show "jj = j0"
  proof (rule ccontr)
    assume "jj \<noteq> j0"
    then consider "jj < j0" | "j0 < jj" by linarith
    then show False
    proof cases
      case 1
      then have "Suc jj * n \<le> j0 * n" by (intro mult_le_mono1) simp
      then show False using a assms by simp
    next
      case 2
      then have "Suc j0 * n \<le> jj * n" by (intro mult_le_mono1) simp
      then show False using a by simp
    qed
  qed
next
  assume "jj = j0"
  then show "j0 * n \<le> ii + jj * n \<and> ii + jj * n < j0 * n + n" using assms by simp
qed

lemma accelerate_flow_cells:
  assumes "grid_ok params grid" "2 \<le> ny params" "ii < nat (nx params)"
  shows "\<exists>grid'. accelerate_flow params obstacles grid = Some grid'
          \<and> grid_ok params grid'
          \<and> cell_at grid' (ii + jj * nat (nx params)) =
              (if int jj = ny params - 2
               then accelerated params (obstacles ! (ii + jj * nat (nx params)))
                      (cell_at grid (ii + jj * nat (nx params)))
               else cell_at grid (ii + jj * nat (nx params)))"
proof -
  let ?j0 = "nat (ny params - 2)"
  let ?r = "fold (accelerate_cell params obstacles ?j0) [0..<nat (nx params)] grid"
  have j0: "?j0 < nat (ny params)" using assms(2) by simp
  have r: "accelerate_flow params obstacles grid = Some ?r"
    using assms(2) by (simp add: accelerate_flow_def)
  have eq: "(int jj = ny params - 2) = (jj = ?j0)" using assms(2) by auto
  from accelerate_row [OF assms(1) j0 order_refl, of obstacles]
  have ok: "grid_ok params ?r"
    and c: "cell_at ?r (ii + jj * nat (nx params)) =
             (if ?j0 * nat (nx params) \<le> ii + jj * nat (nx params)
                 \<and> ii + jj * nat (nx params) < ?j0 * nat (nx params) + nat (nx params)
              then accelerated params (obstacles ! (ii + jj * nat (nx params)))
                     (cell_at grid (ii + jj * nat (nx params)))
              else cell_at grid (ii + jj * nat (nx params)))"
    by blast+
  show ?thesis
    using r ok c unfolding row_range [OF assms(3)] eq by blast
qed

text \<open>
  Claim C4, as stated for every step, fails on a grid of one row, which the parameters
  allow (\<open>ny\<close> is any positive integer): with \<open>ny = 1\<close> the row \<open>ny - 2\<close> does not
  exist, the first read of the acceleration stage is at index \<open>ii - nx\<close>, before the
  start of the arrays, and neither the stage nor the timestep has a result.
\<close>

theorem accelerate_flow_one_row_counterexample:
  "grid_ok row1_params row1_grid
   \<and> ny row1_params = 1 \<and> nx row1_params = 1
   \<and> accelerate_flow row1_params [0] row1_grid = None
   \<and> timestep row1_params [0] d_ones row1_grid row1_grid = None"
  by (simp add: grid_ok_def row1_params_def row1_grid_def accelerate_flow_def timestep_def)

text \<open>
  Claim C4, amended. On a grid with a row \<open>ny - 2\<close> (that is, \<open>2 \<le> ny\<close>), the acceleration
  stage returns, and \<^verbatim>\<open>timestep\<close> runs it on the current grid before the kernel. For
  every cell \<open>(ii, jj)\<close> of the grid: if the cell is on row \<open>ny - 2\<close>, is not an
  obstacle, and \<open>f3 - w1\<close>, \<open>f6 - w2\<close>, \<open>f7 - w2\<close> are positive, then \<open>w1\<close> is added
  to \<open>f1\<close> and taken from \<open>f3\<close>, \<open>w2\<close> is added to \<open>f5\<close> and \<open>f8\<close> and taken from
  \<open>f6\<close> and \<open>f7\<close>, and \<open>f0\<close>, \<open>f2\<close>, \<open>f4\<close> stay; otherwise the nine values of the
  cell stay. Here \<open>w1 = density * accel / 9\<close> and \<open>w2 = density * accel / 36\<close>.
\<close>

theorem accelerate_flow_second_row:
  assumes "grid_ok params grid" and "2 \<le> ny params"
    and "ii < nat (nx params)" and "jj < nat (ny params)"
  shows "\<exists>grid'. accelerate_flow params obstacles grid = Some grid'
     \<and> timestep params obstacles d_equ grid tmp_grid
         = Some (grid', fusion params obstacles d_equ grid' tmp_grid)
     \<and> (let c = ii + jj * nat (nx params);
             w1 = density params * accel params / 9;
             w2 = density params * accel params / 36
         in if int jj = ny params - 2 \<and> obstacles ! c = 0
               \<and> s3 grid ! c - w1 > 0 \<and> s6 grid ! c - w2 > 0 \<and> s7 grid ! c - w2 > 0
            then s1 grid' ! c = s1 grid ! c + w1
               \<and> s5 grid' ! c = s5 grid ! c + w2
               \<and> s8 grid' ! c = s8 grid ! c + w2
               \<and> s3 grid' ! c = s3 grid ! c - w1
               \<and> s6 grid' ! c = s6 grid ! c - w2
               \<and> s7 grid' ! c = s7 grid ! c - w2
               \<and> s0 grid' ! c = s0 grid ! c
               \<and> s2 grid' ! c = s2 grid ! c
               \<and> s4 grid' ! c = s4 grid ! c
            else s0 grid' ! c = s0 grid ! c \<and> s1 grid' ! c = s1 grid ! c
               \<and> s2 grid' ! c = s2 grid ! c \<and> s3 grid' ! c = s3 grid ! c
               \<and> s4 grid' ! c = s4 grid ! c \<and> s5 grid' ! c = s5 grid ! c
               \<and> s6 grid' ! c = s6 grid ! c \<and> s7 grid' ! c = s7 grid ! c
               \<and> s8 grid' ! c = s8 grid ! c)"
proof -
  from accelerate_flow_cells [OF assms(1-3), of obstacles jj]
  obtain grid' where g: "accelerate_flow params obstacles grid = Some grid'"
    and c: "cell_at grid' (ii + jj * nat (nx params)) =
              (if int jj = ny params - 2
               then accelerated params (obstacles ! (ii + jj * nat (nx params)))
                      (cell_at grid (ii + jj * nat (nx params)))
               else cell_at grid (ii + jj * nat (nx params)))"
    by blast
  have t: "timestep params obstacles d_equ grid tmp_grid
         = Some (grid', fusion params obstacles d_equ grid' tmp_grid)"
    using g by (simp add: timestep_def split: prod.splits)
  let ?c = "ii + jj * nat (nx params)"
  let ?w1 = "density params * accel params / 9"
  let ?w2 = "density params * accel params / 36"
  have cells: "if int jj = ny params - 2 \<and> obstacles ! ?c = 0
               \<and> s3 grid ! ?c - ?w1 > 0 \<and> s6 grid ! ?c - ?w2 > 0 \<and> s7 grid ! ?c - ?w2 > 0
            then s1 grid' ! ?c = s1 grid ! ?c + ?w1
               \<and> s5 grid' ! ?c = s5 grid ! ?c + ?w2
               \<and> s8 grid' ! ?c = s8 grid ! ?c + ?w2
               \<and> s3 grid' ! ?c = s3 grid ! ?c - ?w1
               \<and> s6 grid' ! ?c = s6 grid ! ?c - ?w2
               \<and> s7 grid' ! ?c = s7 grid ! ?c - ?w2
               \<and> s0 grid' ! ?c = s0 grid ! ?c
               \<and> s2 grid' ! ?c = s2 grid ! ?c
               \<and> s4 grid' ! ?c = s4 grid ! ?c
            else s0 grid' ! ?c = s0 grid ! ?c \<and> s1 grid' ! ?c = s1 grid ! ?c
               \<and> s2 grid' ! ?c = s2 grid ! ?c \<and> s3 grid' ! ?c = s3 grid ! ?c
               \<and> s4 grid' ! ?c = s4 grid ! ?c \<and> s5 grid' ! ?c = s5 grid ! ?c
               \<and> s6 grid' ! ?c = s6 grid ! ?c \<and> s7 grid' ! ?c = s7 grid ! ?c
               \<and> s8 grid' ! ?c = s8 grid ! ?c"
  proof (cases "int jj = ny params - 2 \<and> obstacles ! ?c = 0
               \<and> s3 grid ! ?c - ?w1 > 0 \<and> s6 grid ! ?c - ?w2 > 0 \<and> s7 grid ! ?c - ?w2 > 0")
    case True
    then have "cell_at grid' ?c =
      [s0 grid ! ?c, s1 grid ! ?c + ?w1, s2 grid ! ?c, s3 grid ! ?c - ?w1, s4 grid ! ?c,
       s5 grid ! ?c + ?w2, s6 grid ! ?c - ?w2, s7 grid ! ?c - ?w2, s8 grid ! ?c + ?w2]"
      using c by (simp add: accelerated_def cell_at_def Let_def)
    then have "s1 grid' ! ?c = s1 grid ! ?c + ?w1
               \<and> s5 grid' ! ?c = s5 grid ! ?c + ?w2
               \<and> s8 grid' ! ?c = s8 grid ! ?c + ?w2
               \<and> s3 grid' ! ?c = s3 grid ! ?c - ?w1
               \<and> s6 grid' ! ?c = s6 grid ! ?c - ?w2
               \<and> s7 grid' ! ?c = s7 grid ! ?c - ?w2
               \<and> s0 grid' ! ?c = s0 grid ! ?c
               \<and> s2 grid' ! ?c = s2 grid ! ?c
               \<and> s4 grid' ! ?c = s4 grid ! ?c"
      by (simp add: cell_at_def)
    then show ?thesis unfolding if_P [OF True] .
  next
    case False
    have "cell_at grid' ?c = cell_at grid ?c"
    proof (cases "int jj = ny params - 2")
      case True
      with False have "\<not> (obstacles ! ?c = 0
               \<and> s3 grid ! ?c - ?w1 > 0 \<and> s6 grid ! ?c - ?w2 > 0 \<and> s7 grid ! ?c - ?w2 > 0)"
        by blast
      then have "accelerated params (obstacles ! ?c) (cell_at grid ?c) = cell_at grid ?c"
        by (auto simp add: accelerated_def cell_at_def Let_def)
      then show ?thesis using c True by simp
    next
      case False
      then show ?thesis using c by simp
    qed
    then have "s0 grid' ! ?c = s0 grid ! ?c \<and> s1 grid' ! ?c = s1 grid ! ?c
               \<and> s2 grid' ! ?c = s2 grid ! ?c \<and> s3 grid' ! ?c = s3 grid ! ?c
               \<and> s4 grid' ! ?c = s4 grid ! ?c \<and> s5 grid' ! ?c = s5 grid ! ?c
               \<and> s6 grid' ! ?c = s6 grid ! ?c \<and> s7 grid' ! ?c = s7 grid ! ?c
               \<and> s8 grid' ! ?c = s8 grid ! ?c"
      by (simp add: cell_at_def)
    then show ?thesis unfolding if_not_P [OF False] .
  qed
  show ?thesis
    unfolding Let_def using g t cells by blast
qed

theorem accelerate_flow_second_row_witness:
  "\<exists>grid'. accelerate_flow acc_params [0, 0, 0, 0] ex_grid = Some grid'
     \<and> s1 grid' ! 0 = 12 \<and> s3 grid' ! 0 = 30 \<and> s6 grid' ! 0 = 243 / 4
     \<and> s0 grid' ! 0 = 1"
proof -
  have h: "grid_ok acc_params ex_grid" "2 \<le> ny acc_params"
    "(0::nat) < nat (nx acc_params)" "(0::nat) < nat (ny acc_params)"
    by (simp_all add: grid_ok_def acc_params_def ex_grid_def)
  show ?thesis
    using accelerate_flow_second_row [OF h, of "[0, 0, 0, 0]" d_ones ex_scratch]
    by (auto simp add: Let_def acc_params_def ex_grid_def)
qed

lemma accelerate_flow_no_row:
  assumes "ny params < 2" "0 < nx params"
  shows "accelerate_flow params obstacles grid = None"
  using assms by (simp add: accelerate_flow_def)

lemma list_all_update:
  assumes "list_all P xs" "i < length xs \<Longrightarrow> P v"
  shows "list_all P (xs[i := v])"
proof (cases "i < length xs")
  case True
  then show ?thesis
    using assms set_update_subset_insert [of xs i v] by (auto simp: list_all_iff)
next
  case False
  then show ?thesis using assms(1) by (simp add: list_update_beyond)
qed

lemma positive_accelerate_cell:
  assumes "positive_grid g" "0 \<le> density params * accel params"
  shows "positive_grid (accelerate_cell params obstacles jj ii g)"
proof -
  let ?c = "ii + jj * nat (nx params)"
  have w: "0 \<le> density params * accel params / 9" "0 \<le> density params * accel params / 36"
    using assms(2) by simp_all
  have p: "list_all (\<lambda>x. 0 < x) xs \<Longrightarrow> ?c < length xs \<Longrightarrow> 0 < xs ! ?c + w" if "0 \<le> w"
    for xs :: "real list" and w
    using that by (simp add: list_all_length add_pos_nonneg)
  show ?thesis
  proof (cases "obstacles ! ?c = 0
        \<and> s3 g ! ?c - density params * accel params / 9 > 0
        \<and> s6 g ! ?c - density params * accel params / 36 > 0
        \<and> s7 g ! ?c - density params * accel params / 36 > 0")
    case True
    then show ?thesis
      using assms(1) p [OF w(1)] p [OF w(2)]
      by (simp add: accelerate_cell_def Let_def positive_grid_def list_all_update)
  next
    case False
    then show ?thesis
      using assms(1) by (auto simp add: accelerate_cell_def Let_def)
  qed
qed

lemma positive_accelerate_row:
  assumes "positive_grid g" "0 \<le> density params * accel params"
  shows "positive_grid (fold (accelerate_cell params obstacles jj) xs g)"
  using assms(1)
  by (induction xs arbitrary: g) (simp_all add: positive_accelerate_cell [OF _ assms(2)])

text \<open>
  Claim C5, as stated, fails for a negative \<^verbatim>\<open>accel\<close>: the guard looks at the three
  values that \<open>w1\<close> and \<open>w2\<close> are taken from, and with \<open>w1 < 0\<close> the value \<open>f1 + w1\<close>
  can fall below zero. On a grid of two cells that all hold 1, with \<open>density = 1\<close> and
  \<open>accel = - 18\<close> (so \<open>w1 = - 2\<close>), the guard holds at the cell of row \<open>ny - 2 = 0\<close>
  and \<open>f1\<close> becomes \<open>- 1\<close>.
\<close>

theorem accelerate_flow_negative_accel_counterexample:
  "positive_grid ones_grid \<and> accelerate_flow cx_params [0, 0] ones_grid = Some cx_after
   \<and> s1 cx_after ! 0 < 0 \<and> \<not> positive_grid cx_after"
  by (simp add: positive_grid_def ones_grid_def cx_after_def cx_params_def accelerate_flow_def
      accelerate_cell_def Let_def)

text \<open>
  Claim C5, amended. When \<open>density * accel\<close> is not negative (so \<open>w1\<close> and \<open>w2\<close> are
  not), the acceleration stage of a grid with \<open>2 \<le> ny\<close> returns, and if every value of
  every array was positive before, every value is positive afterwards.
\<close>

theorem accelerate_flow_keeps_positive:
  assumes "positive_grid grid" and "0 \<le> density params * accel params"
    and "2 \<le> ny params"
  shows "\<exists>grid'. accelerate_flow params obstacles grid = Some grid' \<and> positive_grid grid'"
  using assms(3) positive_accelerate_row [OF assms(1,2), of obstacles]
  by (simp add: accelerate_flow_def)

theorem accelerate_flow_keeps_positive_witness:
  "\<exists>grid'. accelerate_flow acc_params [0, 0, 0, 0] ex_grid = Some grid' \<and> positive_grid grid'"
proof -
  have h: "positive_grid ex_grid" "0 \<le> density acc_params * accel acc_params"
    "2 \<le> ny acc_params"
    by (simp_all add: positive_grid_def ex_grid_def acc_params_def)
  show ?thesis by (rule accelerate_flow_keeps_positive [OF h])
qed

section \<open>The final state file\<close>

lemma nth_concat_rows:
  assumes "\<forall>xs \<in> set xss. length xs = n" "i < n" "j < length xss"
  shows "concat xss ! (i + j * n) = xss ! j ! i"
  using assms
proof (induction xss arbitrary: j)
  case Nil
  then show ?case by simp
next
  case (Cons xs xss)
  show ?case
  proof (cases j)
    case 0
    then show ?thesis using Cons.prems by (simp add: nth_append)
  next
    case (Suc j')
    have "concat (xs # xss) ! (i + j * n) = (xs @ concat xss) ! (n + (i + j' * n))"
      using Suc by (simp add: add.commute add.left_commute)
    also have "\<dots> = concat xss ! (i + j' * n)"
      using Cons.prems(1) by (simp add: nth_append)
    also have "\<dots> = xss ! j' ! i"
      using Cons.prems Suc by (intro Cons.IH) auto
    finally show ?thesis using Suc by simp
  qed
qed

lemma length_concat_rows:
  assumes "\<forall>xs \<in> set xss. length xs = n"
  shows "length (concat xss) = n * length xss"
  using assms by (induction xss) simp_all

lemma final_state_line:
  assumes "ii < nat (nx params)" "jj < nat (ny params)"
  shows "concat (map (\<lambda>jj. map (\<lambda>ii. write_cell params obstacles grid jj ii)
                                     [0..<nat (nx params)])
                         [0..<nat (ny params)]) ! (ii + jj * nat (nx params))
         = write_cell params obstacles grid jj ii"
  using nth_concat_rows [of "map (\<lambda>jj. map (\<lambda>ii. write_cell params obstacles grid jj ii)
                                     [0..<nat (nx params)]) [0..<nat (ny params)]"
      "nat (nx params)" ii jj] assms
  by simp

text \<open>
  Claim C7. \<^verbatim>\<open>final_state.dat\<close> has one line per cell, the line of cell \<open>(ii, jj)\<close> at
  position \<open>ii + jj * nx\<close>. The last field of every line is the mask read at the
  transposed index \<open>ii * nx + jj\<close>. The line of an obstacle cell (the mask read at
  \<open>ii + jj * nx\<close>) has the three velocity fields 0 and the pressure
  \<open>density * (1 / 3)\<close>.
\<close>

theorem final_state_obstacle_lines:
  assumes "ii < nat (nx params)" and "jj < nat (ny params)"
  shows "let NX = nat (nx params);
             final_state = fst (snd (write_values params obstacles av_vels grid True fopen2));
             line = final_state ! (ii + jj * NX)
         in length final_state = NX * nat (ny params)
          \<and> l_ii line = ii \<and> l_jj line = jj
          \<and> l_obstacle line = peek obstacles (ii * NX + jj)
          \<and> (obstacles ! (ii + jj * NX) \<noteq> 0 \<longrightarrow>
               l_u_x line = Some 0 \<and> l_u_y line = Some 0 \<and> l_u line = Some 0
               \<and> l_pressure line = density params * (1 / 3))"
proof -
  let ?rows = "map (\<lambda>jj. map (\<lambda>ii. write_cell params obstacles grid jj ii)
                                     [0..<nat (nx params)]) [0..<nat (ny params)]"
  have fs: "fst (snd (write_values params obstacles av_vels grid True fopen2)) = concat ?rows"
    by (simp add: write_values_def Let_def)
  have len: "length (concat ?rows) = nat (nx params) * nat (ny params)"
    using length_concat_rows [of ?rows "nat (nx params)"] by simp
  have line: "concat ?rows ! (ii + jj * nat (nx params)) = write_cell params obstacles grid jj ii"
    by (rule final_state_line [OF assms])
  have cell: "l_ii (write_cell params obstacles grid jj ii) = ii"
    "l_jj (write_cell params obstacles grid jj ii) = jj"
    "l_obstacle (write_cell params obstacles grid jj ii)
       = peek obstacles (ii * nat (nx params) + jj)"
    by (simp_all add: write_cell_def Let_def)
  have obst: "l_u_x (write_cell params obstacles grid jj ii) = Some 0
      \<and> l_u_y (write_cell params obstacles grid jj ii) = Some 0
      \<and> l_u (write_cell params obstacles grid jj ii) = Some 0
      \<and> l_pressure (write_cell params obstacles grid jj ii) = density params * (1 / 3)"
    if "obstacles ! (ii + jj * nat (nx params)) \<noteq> 0"
    using that by (simp add: write_cell_def Let_def)
  show ?thesis
    unfolding Let_def fs line using len cell obst by blast
qed

theorem final_state_obstacle_lines_witness:
  "l_u_x (fst (snd (write_values ex_params [0, 1, 0, 0] [] ex_grid True True)) ! 1) = Some 0
   \<and> l_pressure (fst (snd (write_values ex_params [0, 1, 0, 0] [] ex_grid True True)) ! 1) = 1 / 3
   \<and> l_obstacle (fst (snd (write_values ex_params [0, 1, 0, 0] [] ex_grid True True)) ! 1) = Some 0"
proof -
  have h: "(1::nat) < nat (nx ex_params)" "(0::nat) < nat (ny ex_params)"
    by (simp_all add: ex_params_def)
  show ?thesis
    using final_state_obstacle_lines [OF h, of obstacles "[]" ex_grid True for obstacles, of "[0, 1, 0, 0]"]
    by (simp add: Let_def ex_params_def peek_def)
qed

section \<open>The Reynolds number\<close>

lemma sqrt_25th: "sqrt (1 / 25) = 1 / 5"
  by (rule real_sqrt_unique) (simp_all add: power2_eq_square)

lemma fusion_eq:
  assumes "grid_ok params tmp"
  shows "fusion params obstacles d grid tmp =
     (put_cells params obstacles d grid (all_cells params) tmp,
      Option.bind (fst (acc_cells params obstacles d grid (all_cells params) (Some 0, 0)))
        (\<lambda>t. fdiv t (real (snd (acc_cells params obstacles d grid (all_cells params) (Some 0, 0))))))"
  by (simp add: fusion_def fusion_loop_split [OF assms] split: prod.splits)

lemma re_acc: "accelerate_flow re_params [0, 0] re_grid = Some re_grid"
  by (simp add: accelerate_flow_def accelerate_cell_def re_params_def re_grid_def Let_def)

lemma re_cells: "all_cells re_params = [(0, 0), (Suc 0, 0)]"
  by (simp add: all_cells_def re_params_def upt_0_2)

lemma re_fusion:
  "fusion re_params [0, 0] d_ones re_grid blank_grid = (re_final, Some (1 / 5))"
proof -
  have ok: "grid_ok re_params blank_grid" by (simp add: grid_ok_def re_params_def blank_grid_def)
  have s0: "streamed re_params re_grid 0 0 = [1, 4, 5, 1, 1, 1, 1, 1, 1]"
    by (simp add: streamed_def re_params_def re_grid_def Let_def)
  have s1: "streamed re_params re_grid (Suc 0) 0 = [1, 4, 5, 1, 1, 1, 1, 1, 1]"
    by (simp add: streamed_def re_params_def re_grid_def Let_def)
  have r: "relaxed (1 / 2) d_ones [1, 4, 5, 1, 1, 1, 1, 1, 1] = [1, 5 / 2, 3, 1, 1, 1, 1, 1, 1]"
    by (simp add: relaxed_def d_ones_def)
  have v: "speed_of [1, 5 / 2, 3, 1, 1, 1, 1, 1, 1] = Some (1 / 5)"
    by (simp add: speed_of_def fdiv_def sqrt_25th)
  have om: "omega re_params = 1 / 2" "nat (nx re_params) = 1" by (simp_all add: re_params_def)
  have c0: "cell_new re_params [0, 0] d_ones re_grid 0 0 = [1, 5 / 2, 3, 1, 1, 1, 1, 1, 1]"
    by (simp add: cell_new_def s0 om r)
  have c1: "cell_new re_params [0, 0] d_ones re_grid (Suc 0) 0 = [1, 5 / 2, 3, 1, 1, 1, 1, 1, 1]"
    by (simp add: cell_new_def s1 om r)
  have a0: "acc_step re_params [0, 0] d_ones re_grid 0 0 (Some 0, 0) = (Some (1 / 5), Suc 0)"
    by (simp add: acc_step_def s0 om r v)
  have a1: "acc_step re_params [0, 0] d_ones re_grid (Suc 0) 0 (Some (1 / 5), Suc 0) = (Some (2 / 5), 2)"
    by (simp add: acc_step_def s1 om r v)
  show ?thesis
    unfolding fusion_eq [OF ok] re_cells
    by (simp add: c0 c1 a0 a1 om put_cell_def blank_grid_def re_final_def fdiv_def)
qed

lemma re_step:
  "main_loop re_params [0, 0] d_ones re_grid blank_grid [None]
     = Some (re_final, re_grid, [Some (1 / 5)])"
proof -
  have m: "nat (maxIters re_params) = 1" by (simp add: re_params_def)
  show ?thesis
    by (simp add: main_loop_def m main_step_def timestep_def re_acc re_fusion)
qed

lemma av_velocity_cell_eq:
  assumes "obstacles ! (ii + jj * nat (nx params)) = 0
             \<longrightarrow> cell_density g (ii + jj * nat (nx params)) \<noteq> 0"
  shows "av_velocity_cell params obstacles g jj ii (Some t, n) =
           (if obstacles ! (ii + jj * nat (nx params)) = 0
            then (Some (t + cell_speed g (ii + jj * nat (nx params))), n + 1)
            else (Some t, n))"
  using assms
  by (simp add: av_velocity_cell_def fdiv_def Let_def cell_speed_def cell_density_def)

lemma fold_av_velocity_cell:
  assumes "\<forall>(jj, ii) \<in> set cs. obstacles ! (ii + jj * nat (nx params)) = 0
             \<longrightarrow> cell_density g (ii + jj * nat (nx params)) \<noteq> 0"
  shows "fold (\<lambda>(jj, ii). av_velocity_cell params obstacles g jj ii) cs (Some t, n) =
     (Some (t + sum_list (map (cell_speed g) (filter (\<lambda>c. obstacles ! c = 0)
                (map (\<lambda>(jj, ii). ii + jj * nat (nx params)) cs)))),
      n + length (filter (\<lambda>c. obstacles ! c = 0)
                (map (\<lambda>(jj, ii). ii + jj * nat (nx params)) cs)))"
  using assms
proof (induction cs arbitrary: t n)
  case Nil
  show ?case by simp
next
  case (Cons x cs)
  obtain jj ii where x: "x = (jj, ii)" by (cases x)
  have here: "obstacles ! (ii + jj * nat (nx params)) = 0
             \<longrightarrow> cell_density g (ii + jj * nat (nx params)) \<noteq> 0"
    using Cons.prems x by simp
  have rest: "\<forall>(jj, ii) \<in> set cs. obstacles ! (ii + jj * nat (nx params)) = 0
             \<longrightarrow> cell_density g (ii + jj * nat (nx params)) \<noteq> 0"
    using Cons.prems by simp
  show ?case
    unfolding x
    by (simp add: av_velocity_cell_eq [OF here] Cons.IH [OF rest] add.assoc)
qed

lemma av_velocity_average:
  assumes "\<forall>c < nat (nx params) * nat (ny params).
             obstacles ! c = 0 \<longrightarrow> cell_density g c \<noteq> 0"
    and "filter (\<lambda>c. obstacles ! c = 0) [0..<nat (nx params) * nat (ny params)] \<noteq> []"
  shows "av_velocity params obstacles g =
     Some (sum_list (map (cell_speed g)
             (filter (\<lambda>c. obstacles ! c = 0) [0..<nat (nx params) * nat (ny params)]))
           / real (length
             (filter (\<lambda>c. obstacles ! c = 0) [0..<nat (nx params) * nat (ny params)])))"
proof -
  let ?fluid = "filter (\<lambda>c. obstacles ! c = 0) [0..<nat (nx params) * nat (ny params)]"
  have dens: "\<forall>(jj, ii) \<in> set (all_cells params).
        obstacles ! (ii + jj * nat (nx params)) = 0
          \<longrightarrow> cell_density g (ii + jj * nat (nx params)) \<noteq> 0"
    using assms(1) cell_index_less by (auto simp: all_cells_def)
  have idx: "map (\<lambda>(jj, ii). ii + jj * nat (nx params)) (all_cells params)
               = [0..<nat (nx params) * nat (ny params)]"
    unfolding all_cells_def by (rule cell_indices)
  have "fold (\<lambda>jj. fold (\<lambda>ii. av_velocity_cell params obstacles g jj ii)
                           [0..<nat (nx params)])
               [0..<nat (ny params)] (Some 0, 0)
        = (Some (sum_list (map (cell_speed g) ?fluid)), length ?fluid)"
    using fold_av_velocity_cell [OF dens, of 0 0]
    by (simp add: fold_product all_cells_def [symmetric] idx)
  moreover have "length ?fluid \<noteq> 0" using assms(2) by simp
  ultimately show ?thesis
    by (simp add: av_velocity_def fdiv_def)
qed

text \<open>
  Claim C6. After the loop of \<^verbatim>\<open>main\<close> the number printed is \<^verbatim>\<open>calc_reynolds\<close> of the
  grid that \<^verbatim>\<open>grid_ptr\<close> points to, whatever \<^verbatim>\<open>av_vels\<close> holds. When that grid has a
  fluid cell and no fluid cell of density 0, and \<open>omega\<close> is neither 0 nor 2,
  \<^verbatim>\<open>av_velocity\<close> gives the sum of the speeds of the fluid cells divided by their
  number, \<open>u\<close>, and the number printed is \<open>u * reynolds_dim / (1 / 6 * (2 / omega - 1))\<close>.
\<close>

theorem reynolds_number_of_final_grid:
  assumes "main_loop params obstacles d_equ grid tmp_grid av_vels
             = Some (grid', tmp_grid', av_vels')"
    and "omega params \<noteq> 0" and "omega params \<noteq> 2"
    and "\<forall>c < nat (nx params) * nat (ny params).
           obstacles ! c = 0 \<longrightarrow> cell_density grid' c \<noteq> 0"
    and "filter (\<lambda>c. obstacles ! c = 0) [0..<nat (nx params) * nat (ny params)] \<noteq> []"
  shows "let fluid = filter (\<lambda>c. obstacles ! c = 0) [0..<nat (nx params) * nat (ny params)];
             u = sum_list (map (cell_speed grid') fluid) / real (length fluid)
         in map_option fst
              (main_run params obstacles d_equ grid tmp_grid av_vels fopen1 fopen2)
              = Some (calc_reynolds params obstacles grid')
          \<and> av_velocity params obstacles grid' = Some u
          \<and> calc_reynolds params obstacles grid'
              = Some (u * real_of_int (reynolds_dim params) / (1 / 6 * (2 / omega params - 1)))"
  using assms(1-3) av_velocity_average [OF assms(4,5)]
  by (simp add: main_run_def calc_reynolds_def fdiv_def Let_def)

theorem reynolds_number_of_final_grid_witness:
  "map_option fst (main_run re_params [0, 0] d_ones re_grid blank_grid [None] True True)
     = Some (Some 2)
   \<and> av_velocity re_params [0, 0] re_final = Some (1 / 5)"
proof -
  have h: "omega re_params \<noteq> 0" "omega re_params \<noteq> 2"
    "\<forall>c < nat (nx re_params) * nat (ny re_params).
           [0, 0 :: int] ! c = 0 \<longrightarrow> cell_density re_final c \<noteq> 0"
    "filter (\<lambda>c. [0, 0 :: int] ! c = 0) [0..<nat (nx re_params) * nat (ny re_params)] \<noteq> []"
    by (auto simp add: re_params_def cell_density_def re_final_def upt_0_2 nth_Cons')
  have f: "filter (\<lambda>c. [0, 0 :: int] ! c = 0) [0..<nat (nx re_params) * nat (ny re_params)]
             = [0, Suc 0]"
    by (simp add: re_params_def upt_0_2)
  have v: "cell_speed re_final 0 = 1 / 5" "cell_speed re_final (Suc 0) = 1 / 5"
    by (simp_all add: cell_speed_def cell_density_def re_final_def Let_def sqrt_25th)
  have u: "sum_list (map (cell_speed re_final) [0, Suc 0]) / real (length [0, Suc 0 :: nat])
             = 1 / 5"
    by (simp add: v)
  have r: "1 / 5 * real_of_int (reynolds_dim re_params) / (1 / 6 * (2 / omega re_params - 1)) = 2"
    by (simp add: re_params_def)
  from reynolds_number_of_final_grid [OF re_step h, of True True]
  have "map_option fst (main_run re_params [0, 0] d_ones re_grid blank_grid [None] True True)
           = Some (calc_reynolds re_params [0, 0] re_final)"
    and "av_velocity re_params [0, 0] re_final = Some (1 / 5)"
    and "calc_reynolds re_params [0, 0] re_final = Some 2"
    unfolding Let_def f u r by blast+
  then show ?thesis by (simp only:)
qed

section \<open>Fluid cells\<close>

lemma fluid_cell_relaxation:
  assumes "grid_ok params tmp"
    and "ii < nat (nx params)" and "jj < nat (ny params)"
    and "obstacles ! (ii + jj * nat (nx params)) = 0"
  shows "cell_at (fst (fusion params obstacles d grid tmp)) (ii + jj * nat (nx params)) =
           relaxed (omega params) d (streamed params grid jj ii)"
  using cell_at_fusion_loop [OF assms(1-3), of obstacles d grid] assms(4)
  by (simp add: fst_fusion cell_new_def)

lemma spec_equilibrium_rest:
  "spec_equilibrium [4 / 9 * r, 1 / 9 * r, 1 / 9 * r, 1 / 9 * r, 1 / 9 * r,
                     1 / 36 * r, 1 / 36 * r, 1 / 36 * r, 1 / 36 * r]
   = [4 / 9 * r, 1 / 9 * r, 1 / 9 * r, 1 / 9 * r, 1 / 9 * r,
      1 / 36 * r, 1 / 36 * r, 1 / 36 * r, 1 / 36 * r]"
  by (simp add: spec_equilibrium_def Let_def)

lemma bgk_cells: "all_cells bgk_params = [(0, 0), (Suc 0, 0)]"
  by (simp add: all_cells_def bgk_params_def upt_0_2)

lemma bgk_streamed:
  "streamed bgk_params eq_grid 0 0 = [4 / 9, 1 / 9, 1 / 9, 1 / 9, 1 / 9, 1 / 36, 1 / 36, 1 / 36, 1 / 36]"
  "streamed bgk_params eq_grid (Suc 0) 0 = [4 / 9, 1 / 9, 1 / 9, 1 / 9, 1 / 9, 1 / 36, 1 / 36, 1 / 36, 1 / 36]"
  by (simp_all add: streamed_def bgk_params_def eq_grid_def Let_def)

lemma bgk_fusion:
  "fusion bgk_params [0, 0] d_ones eq_grid blank_grid = (ones_grid, Some 0)"
proof -
  have ok: "grid_ok bgk_params blank_grid" by (simp add: grid_ok_def bgk_params_def blank_grid_def)
  have r: "relaxed 1 d_ones [4 / 9, 1 / 9, 1 / 9, 1 / 9, 1 / 9, 1 / 36, 1 / 36, 1 / 36, 1 / 36]
             = [1, 1, 1, 1, 1, 1, 1, 1, 1]"
    by (simp add: relaxed_def d_ones_def)
  have v: "speed_of [1, 1, 1, 1, 1, 1, 1, 1, 1] = Some 0"
    by (simp add: speed_of_def fdiv_def)
  have om: "omega bgk_params = 1" "nat (nx bgk_params) = 1" by (simp_all add: bgk_params_def)
  have c0: "cell_new bgk_params [0, 0] d_ones eq_grid 0 0 = [1, 1, 1, 1, 1, 1, 1, 1, 1]"
    by (simp add: cell_new_def bgk_streamed om r)
  have c1: "cell_new bgk_params [0, 0] d_ones eq_grid (Suc 0) 0 = [1, 1, 1, 1, 1, 1, 1, 1, 1]"
    by (simp add: cell_new_def bgk_streamed om r)
  have a0: "acc_step bgk_params [0, 0] d_ones eq_grid 0 0 (Some 0, 0) = (Some 0, Suc 0)"
    by (simp add: acc_step_def bgk_streamed om r v)
  have a1: "acc_step bgk_params [0, 0] d_ones eq_grid (Suc 0) 0 (Some 0, Suc 0) = (Some 0, 2)"
    by (simp add: acc_step_def bgk_streamed om r v)
  show ?thesis
    unfolding fusion_eq [OF ok] bgk_cells
    by (simp add: c0 c1 a0 a1 om put_cell_def ones_grid_def blank_grid_def fdiv_def)
qed

text \<open>
  Claim C1 does not hold of the code. On a grid of two fluid cells that hold the
  equilibrium of density 1 at rest, with \<open>omega = 1\<close>, the kernel writes the nine
  entries of \<open>d_equ\<close> (here all 1) into each cell, where the relaxation of the
  specification gives back the equilibrium (4/9, 1/9, ..., 1/36).
\<close>

theorem fusion_fluid_cell_not_bgk:
  "fst (fusion bgk_params [0, 0] d_ones eq_grid blank_grid) = ones_grid
   \<and> cell_at ones_grid 0 = [1, 1, 1, 1, 1, 1, 1, 1, 1]
   \<and> spec_relaxation (omega bgk_params) (streamed bgk_params eq_grid 0 0)
       = [4 / 9, 1 / 9, 1 / 9, 1 / 9, 1 / 9, 1 / 36, 1 / 36, 1 / 36, 1 / 36]"
proof -
  have "spec_equilibrium [4 / 9, 1 / 9, 1 / 9, 1 / 9, 1 / 9, 1 / 36, 1 / 36, 1 / 36, 1 / 36]
        = [4 / 9, 1 / 9, 1 / 9, 1 / 9, 1 / 9, 1 / 36, 1 / 36, 1 / 36, 1 / 36]"
    using spec_equilibrium_rest [of 1] by simp
  then have "spec_relaxation 1 [4 / 9, 1 / 9, 1 / 9, 1 / 9, 1 / 9, 1 / 36, 1 / 36, 1 / 36, 1 / 36]
        = [4 / 9, 1 / 9, 1 / 9, 1 / 9, 1 / 9, 1 / 36, 1 / 36, 1 / 36, 1 / 36]"
    by (simp add: spec_relaxation_def)
  moreover have "omega bgk_params = 1" by (simp add: bgk_params_def)
  moreover have "cell_at ones_grid 0 = [1, 1, 1, 1, 1, 1, 1, 1, 1]"
    by (simp add: cell_at_def ones_grid_def)
  ultimately show ?thesis
    by (simp add: bgk_fusion bgk_streamed)
qed

text \<open>
  Whatever the nine entries of \<open>d_equ\<close> are, they are the same for every cell, so for
  \<open>omega\<close> other than 0 the relaxation of the kernel cannot agree with the one of the
  specification on both the rest equilibrium of density 1 and that of density 2.
\<close>

lemma no_d_equ_is_bgk:
  assumes "w \<noteq> 0"
  shows "\<not> (\<forall>t. relaxed w d t = spec_relaxation w t)"
proof
  assume a: "\<forall>t. relaxed w d t = spec_relaxation w t"
  let ?t = "\<lambda>r::real. [4 / 9 * r, 1 / 9 * r, 1 / 9 * r, 1 / 9 * r, 1 / 9 * r,
                     1 / 36 * r, 1 / 36 * r, 1 / 36 * r, 1 / 36 * r]"
  have "relaxed w d (?t r) ! 0 = spec_relaxation w (?t r) ! 0" for r
    using a by simp
  then have "4 / 9 * r + w * (d 0 - 4 / 9 * r) = 4 / 9 * r" for r
    unfolding spec_relaxation_def spec_equilibrium_rest by (simp add: relaxed_def)
  then have "d 0 = 4 / 9 * r" for r using assms by simp
  from this [of 1] this [of 2] show False by simp
qed

lemma bgk_acc: "accelerate_flow bgk_params [0, 0] eq_grid = Some eq_grid"
  by (simp add: accelerate_flow_def accelerate_cell_def bgk_params_def eq_grid_def Let_def)

text \<open>
  Claim C2 does not hold of the code. The grid of two fluid cells at the uniform
  equilibrium of density 1, with no obstacle and \<open>accel = 0\<close>, is after one timestep
  (\<open>omega = 1\<close>) the grid that holds 1 everywhere: the value 4/9 has become 1. The
  average velocity returned is 0.
\<close>

theorem uniform_equilibrium_not_fixed:
  "main_loop bgk_params [0, 0] d_ones eq_grid blank_grid [None]
     = Some (ones_grid, eq_grid, [Some 0])
   \<and> s0 eq_grid ! 0 = 4 / 9 \<and> s0 ones_grid ! 0 = 1"
proof -
  have m: "nat (maxIters bgk_params) = 1" by (simp add: bgk_params_def)
  have "main_loop bgk_params [0, 0] d_ones eq_grid blank_grid [None]
     = Some (ones_grid, eq_grid, [Some 0])"
    by (simp add: main_loop_def m main_step_def timestep_def bgk_acc bgk_fusion)
  then show ?thesis by (simp add: eq_grid_def ones_grid_def)
qed

section \<open>Allocation at initialisation\<close>

lemma good_params: "read_params good_env = Inr bgk_params"
  by (simp add: read_params_def good_env_def bgk_params_def)

lemma initialise_good_env:
  "initialise good_env =
     Inr \<lparr>i_params = bgk_params,
          i_grid = \<lparr>p0 = Some (s0 eq_grid), p1 = Some (s1 eq_grid), p2 = Some (s2 eq_grid),
                    p3 = Some (s3 eq_grid), p4 = Some (s4 eq_grid), p5 = Some (s5 eq_grid),
                    p6 = Some (s6 eq_grid), p7 = Some (s7 eq_grid), p8 = Some (s8 eq_grid)\<rparr>,
          i_tmp_grid = \<lparr>p0 = Some [7, 7], p1 = Some [7, 7], p2 = Some [7, 7],
                        p3 = Some [7, 7], p4 = Some [7, 7], p5 = Some [7, 7],
                        p6 = Some [7, 7], p7 = Some [7, 7], p8 = Some [7, 7]\<rparr>,
          i_obstacles = [0, 0],
          i_av_vels = Some [Some 7]\<rparr>"
proof -
  have d: "nat (nx bgk_params) = 1" "nat (ny bgk_params) = 2" "ny bgk_params * nx bgk_params = 2"
    "maxIters bgk_params = 1" "density bgk_params = 1"
    by (simp_all add: bgk_params_def)
  have e: "heap good_env = (\<lambda>k. True)" "fresh_float good_env = 7" "fresh_int good_env = 7"
    "obstaclefile_opens good_env" "obstacle_lines good_env = []"
    by (simp_all add: good_env_def)
  show ?thesis
    unfolding initialise_def good_params
    by (simp add: on_ok_def d e mm_malloc_def upt_0_2 init_cell_def store_def Let_def
        eq_grid_def numeral_2_eq_2)
qed

text \<open>
  Claim C8 does not hold of the code. When the first allocation (\<^verbatim>\<open>grid.s0\<close>) fails,
  \<^verbatim>\<open>initialise\<close> stores the initial density through the null pointer (line 897)
  instead of calling \<^verbatim>\<open>die\<close>; when the last one (\<^verbatim>\<open>av_vels\<close>) fails, it returns
  normally with the null pointer.
\<close>

theorem initialise_unchecked_allocation:
  "initialise bad_env = Inl Null_write
   \<and> map_sum id i_av_vels (initialise bad_env') = Inr None"
proof -
  have p: "read_params bad_env = Inr bgk_params" "read_params bad_env' = Inr bgk_params"
    by (simp_all add: read_params_def bad_env_def bad_env'_def good_env_def bgk_params_def)
  have d: "nat (nx bgk_params) = 1" "nat (ny bgk_params) = 2" "ny bgk_params * nx bgk_params = 2"
    "maxIters bgk_params = 1" "density bgk_params = 1"
    by (simp_all add: bgk_params_def)
  have e: "heap bad_env = (\<lambda>k. k \<noteq> 0)" "heap bad_env' = (\<lambda>k. k \<noteq> 19)"
    "obstaclefile_opens bad_env'" "obstacle_lines bad_env' = []"
    by (simp_all add: bad_env_def bad_env'_def good_env_def)
  have a: "initialise bad_env = Inl Null_write"
    unfolding initialise_def p
    by (simp add: on_ok_def d e mm_malloc_def upt_0_2 init_cell_def store_def Let_def)
  have b: "map_sum id i_av_vels (initialise bad_env') = Inr None"
    unfolding initialise_def p
    by (simp add: on_ok_def d e mm_malloc_def upt_0_2 init_cell_def store_def Let_def)
  show ?thesis using a b by simp
qed

end
